theory Spec2Isabelle
  imports Main "HOL-Library.Word"
begin

section \<open>The bundling proxy of \<^verbatim>\<open>main.go\<close>\<close>

text \<open>
  The program is one HTTP handler (a closure inside \<^verbatim>\<open>main\<close>) and two helpers,
  \<^verbatim>\<open>sendError\<close> and \<^verbatim>\<open>serveBundle\<close>. Go strings and byte slices are byte
  sequences; both are modelled as \<open>string\<close> (a list of 8-bit characters), so the
  conversions \<^verbatim>\<open>[]byte(s)\<close> and \<^verbatim>\<open>string(b)\<close> are the identity.
\<close>

subsection \<open>Formatting helpers of \<^verbatim>\<open>fmt\<close> and \<^verbatim>\<open>strings\<close>\<close>

text \<open>\<^verbatim>\<open>strings.TrimPrefix(s, "/")\<close>: one leading slash is removed when there is one.\<close>

definition trim_prefix_slash :: "string \<Rightarrow> string" where
  "trim_prefix_slash s = (case s of [] \<Rightarrow> [] | c # cs \<Rightarrow> if c = CHR ''/'' then cs else c # cs)"

text \<open>The verb \<^verbatim>\<open>%x\<close> on a byte slice: two lower-case hexadecimal digits per byte.\<close>

definition hex_digit :: "nat \<Rightarrow> char" where
  "hex_digit n = ''0123456789abcdef'' ! (n mod 16)"

definition hex_byte :: "8 word \<Rightarrow> string" where
  "hex_byte b = [hex_digit (unat b div 16), hex_digit (unat b mod 16)]"

definition sprintf_x :: "8 word list \<Rightarrow> string" where
  "sprintf_x bs = concat (map hex_byte bs)"

text \<open>The verb \<^verbatim>\<open>%d\<close> on a non-negative \<^verbatim>\<open>int\<close> (a length): its decimal digits.\<close>

definition dec_digit :: "nat \<Rightarrow> char" where
  "dec_digit n = ''0123456789'' ! (n mod 10)"

fun sprintf_d :: "nat \<Rightarrow> string" where
  "sprintf_d n = (if n < 10 then [dec_digit n] else sprintf_d (n div 10) @ [dec_digit n])"

declare sprintf_d.simps [simp del]

subsection \<open>SHA-256 digests\<close>

text \<open>
  \<^verbatim>\<open>crypto/sha256\<close> is a library of the Go distribution, not code of this repository:
  the hash function is a parameter of the model. Its result type \<^verbatim>\<open>[32]byte\<close> is the
  type of 256-bit words, read as 32 bytes, most significant byte first.
\<close>

type_synonym digest = "256 word"

definition digest_bytes :: "digest \<Rightarrow> 8 word list" where
  "digest_bytes d = map (\<lambda>i. ucast (drop_bit (8 * (31 - i)) d)) [0..<32]"

text \<open>
  Lines 192-194: \<^verbatim>\<open>hash := fmt.Sprintf("%x", hasher.Sum(nil))[:20]\<close> after
  \<^verbatim>\<open>hasher.Write([]byte(fullURL))\<close>. Slicing a Go string beyond its length panics;
  the model records this as \<open>None\<close>.
\<close>

definition slice_to :: "nat \<Rightarrow> string \<Rightarrow> string option" where
  "slice_to n s = (if n \<le> length s then Some (take n s) else None)"

definition cache_key :: "(string \<Rightarrow> digest) \<Rightarrow> string \<Rightarrow> string option" where
  "cache_key sha fullURL = slice_to 20 (sprintf_x (digest_bytes (sha fullURL)))"

text \<open>
  Lines 98-99 of \<^verbatim>\<open>serveBundle\<close>: \<^verbatim>\<open>shaHash := sha256.Sum256(bundle)\<close> and
  \<^verbatim>\<open>etag := fmt.Sprintf(`"%x"`, shaHash[:16])\<close>. The array has 32 elements, so the slice
  \<^verbatim>\<open>shaHash[:16]\<close> is always in range; the double quotes are part of the format.
\<close>

definition etag_of :: "(string \<Rightarrow> digest) \<Rightarrow> string \<Rightarrow> string" where
  "etag_of sha bundle =
     [CHR 0x22] @ sprintf_x (take 16 (digest_bytes (sha bundle))) @ [CHR 0x22]"

definition is_hex_char :: "char \<Rightarrow> bool" where
  "is_hex_char c = (c \<in> set ''0123456789abcdef'')"

subsection \<open>The response writer of \<^verbatim>\<open>net/http\<close>\<close>

text \<open>
  What the handler does to its \<^verbatim>\<open>http.ResponseWriter\<close>: it sets headers, writes the
  status line once (\<^verbatim>\<open>WriteHeader\<close>) and appends to the body (\<^verbatim>\<open>Write\<close>). The
  status is \<open>None\<close> until the header has been written; the first \<^verbatim>\<open>Write\<close> writes
  status 200 when nothing did before, a second \<^verbatim>\<open>WriteHeader\<close> is ignored, and headers
  set after the status line has gone out are not sent. Header names are compared as the
  source spells them.
\<close>

record response_writer =
  rw_header :: "string \<Rightarrow> string option"
  rw_status :: "int option"
  rw_body :: string

definition new_writer :: response_writer where
  "new_writer = \<lparr>rw_header = Map.empty, rw_status = None, rw_body = []\<rparr>"

definition header_set :: "string \<Rightarrow> string \<Rightarrow> response_writer \<Rightarrow> response_writer" where
  "header_set k v w =
     (if rw_status w = None then w\<lparr>rw_header := (rw_header w)(k \<mapsto> v)\<rparr> else w)"

definition write_header :: "int \<Rightarrow> response_writer \<Rightarrow> response_writer" where
  "write_header code w = (if rw_status w = None then w\<lparr>rw_status := Some code\<rparr> else w)"

definition write_body :: "string \<Rightarrow> response_writer \<Rightarrow> response_writer" where
  "write_body b w = (let w' = write_header 200 w in w'\<lparr>rw_body := rw_body w' @ b\<rparr>)"

text \<open>The status the client receives: 200 when the handler returned without writing.\<close>

definition sent_status :: "response_writer \<Rightarrow> int" where
  "sent_status w = (case rw_status w of None \<Rightarrow> 200 | Some code \<Rightarrow> code)"

subsection \<open>The request, the upstream responses and the outside world\<close>

text \<open>The fields of \<^verbatim>\<open>*http.Request\<close> that the handler reads.\<close>

record request =
  url_path :: string
  raw_query :: string
  host :: string
  url_scheme :: string
  req_header :: "string \<Rightarrow> string option"

text \<open>\<^verbatim>\<open>r.Header.Get(k)\<close>: the empty string when the header is absent.\<close>

definition header_get :: "request \<Rightarrow> string \<Rightarrow> string" where
  "header_get r k = (case req_header r k of None \<Rightarrow> [] | Some v \<Rightarrow> v)"

text \<open>
  The fields and methods of an upstream \<^verbatim>\<open>*http.Response\<close> that the handler uses.
  \<open>location\<close> is the result of \<^verbatim>\<open>resp.Location()\<close>: \<open>Some\<close> of the resolved
  URL's text (\<^verbatim>\<open>u.String()\<close>), or \<open>None\<close> when the method returns an error (no
  \<^verbatim>\<open>Location\<close> header, or one that does not parse), in which case the URL it returns
  is \<^verbatim>\<open>nil\<close>. \<open>body_data\<close> and \<open>body_err\<close> are the two results of
  \<^verbatim>\<open>io.ReadAll(resp.Body)\<close>.
\<close>

record upstream =
  status_code :: int
  status_text :: string
  location :: "string option"
  body_data :: string
  body_err :: "string option"

text \<open>
  The error of \<^verbatim>\<open>cmd.Run()\<close>: an \<^verbatim>\<open>*exec.ExitError\<close> with its exit code, or any
  other error; each carries the text of \<^verbatim>\<open>Error()\<close>.
\<close>

datatype run_error = ExitError int string | OtherError string

text \<open>An \<^verbatim>\<open>api.Message\<close> of the bundling engine, by its text.\<close>

type_synonym message = string

text \<open>
  Everything the handler calls outside this repository, as results of the calls: the Go
  library's encoders, the network, the file system outside the cache directory, the two
  external commands and the bundling engine. Errors are given by their \<^verbatim>\<open>Error()\<close>
  text.
  \<^item> \<open>sha256\<close>: \<^verbatim>\<open>crypto/sha256\<close>;
  \<^item> \<open>json_marshal\<close>: \<^verbatim>\<open>json.Marshal\<close> of a string;
  \<^item> \<open>quote\<close>: the verb \<^verbatim>\<open>%q\<close> on a string;
  \<^item> \<open>errorf_status\<close>: \<^verbatim>\<open>fmt.Errorf("status %d", errors.New(b)).Error()\<close>;
  \<^item> \<open>errorf_build\<close>: \<^verbatim>\<open>fmt.Errorf("build failed: %v errors", msgs).Error()\<close>;
  \<^item> \<open>sprintf_html\<close>: \<^verbatim>\<open>fmt.Sprintf(htmlPage, a, b)\<close>;
  \<^item> \<open>http_get\<close>: \<^verbatim>\<open>client.Get\<close> with redirects not followed by the client;
  \<^item> \<open>mkdir_temp\<close>, \<open>mkdir_all\<close>, \<open>read_file\<close>, \<open>write_file\<close>: \<^verbatim>\<open>os.MkdirTemp\<close>,
    \<^verbatim>\<open>os.MkdirAll\<close>, \<^verbatim>\<open>os.ReadFile\<close> and \<^verbatim>\<open>os.WriteFile\<close> on the manifest files
    and the workspace;
  \<^item> \<open>run_split\<close>: a command run in a directory with standard output and standard error
    captured in two buffers; \<open>run_merged\<close>: with both captured in one buffer;
  \<^item> \<open>json_unmarshal\<close>: \<^verbatim>\<open>json.Unmarshal\<close> into the struct with the one field
    \<^verbatim>\<open>Missing map[string][]string\<close>, the map given as the list of its entries in the
    order in which \<^verbatim>\<open>range\<close> visits them;
  \<^item> \<open>build\<close>: \<^verbatim>\<open>api.Build\<close> with the fixed options of lines 311-322, given the
    arguments of the two \<^verbatim>\<open>filepath.Join\<close> calls (entry point and output file); its
    result is \<^verbatim>\<open>result.Errors\<close>;
  \<^item> \<open>stat_fault\<close>, \<open>read_fault\<close>, \<open>write_fault\<close>: failures of \<^verbatim>\<open>os.Stat\<close>,
    \<^verbatim>\<open>os.ReadFile\<close> and \<^verbatim>\<open>os.WriteFile\<close> on a cache path for a reason other than
    the file's absence; a failed write also says what it leaves at the path.
\<close>

record env =
  sha256 :: "string \<Rightarrow> digest"
  json_marshal :: "string \<Rightarrow> string"
  quote :: "string \<Rightarrow> string"
  errorf_status :: "string \<Rightarrow> string"
  errorf_build :: "message list \<Rightarrow> string"
  sprintf_html :: "string \<Rightarrow> string \<Rightarrow> string"
  http_get :: "string \<Rightarrow> string + upstream"
  mkdir_temp :: "string + string"
  mkdir_all :: "string \<Rightarrow> string option"
  read_file :: "string \<Rightarrow> string + string"
  write_file :: "string \<Rightarrow> string \<Rightarrow> string option"
  run_split :: "string \<Rightarrow> string list \<Rightarrow> string \<Rightarrow> run_error option \<times> string \<times> string"
  run_merged :: "string \<Rightarrow> string list \<Rightarrow> string \<Rightarrow> run_error option \<times> string"
  json_unmarshal :: "string \<Rightarrow> string + (string \<times> string list) list"
  build :: "string list \<Rightarrow> string list \<Rightarrow> message list"
  stat_fault :: "string \<Rightarrow> bool"
  read_fault :: "string \<Rightarrow> string option"
  write_fault :: "string \<Rightarrow> string \<Rightarrow> (string \<times> string option) option"

text \<open>
  The cache directory \<^verbatim>\<open>.cache\<close> is the state the handler reads and writes: a map
  from path to content. The workspace is a fresh directory made by \<^verbatim>\<open>os.MkdirTemp\<close>
  in the system's temporary directory, so neither the handler's writes there nor the
  external tools touch the cache directory.
\<close>

type_synonym cache = "string \<Rightarrow> string option"

definition os_stat_ok :: "env \<Rightarrow> cache \<Rightarrow> string \<Rightarrow> bool" where
  "os_stat_ok e c p = (c p \<noteq> None \<and> \<not> stat_fault e p)"

definition os_read_cache :: "env \<Rightarrow> cache \<Rightarrow> string \<Rightarrow> string + string" where
  "os_read_cache e c p =
     (case c p of
        None \<Rightarrow> Inl (''open '' @ p @ '': no such file or directory'')
      | Some b \<Rightarrow> (case read_fault e p of Some err \<Rightarrow> Inl err | None \<Rightarrow> Inr b))"

definition os_write_cache :: "env \<Rightarrow> cache \<Rightarrow> string \<Rightarrow> string \<Rightarrow> string option \<times> cache" where
  "os_write_cache e c p b =
     (case write_fault e p b of
        None \<Rightarrow> (None, c(p \<mapsto> b))
      | Some (err, left) \<Rightarrow> (Some err, c(p := left)))"

text \<open>What the handler does to the outside world, in order.\<close>

datatype event =
    HttpGet string
  | Exec string "string list" string
  | Build "string list" "string list"

subsection \<open>\<^verbatim>\<open>sendError\<close> and \<^verbatim>\<open>serveBundle\<close>\<close>

text \<open>
  Lines 62-67. The error argument is given by its \<^verbatim>\<open>Error()\<close> text, the only thing
  \<^verbatim>\<open>sendError\<close> reads of it.
\<close>

definition sendError :: "env \<Rightarrow> response_writer \<Rightarrow> string \<Rightarrow> string \<Rightarrow> response_writer" where
  "sendError e w msg err =
     (let w1 = header_set ''Content-Type'' ''application/javascript'' w;
          v = json_marshal e msg;
          w2 = write_body (''console.error('' @ v @ '');'') w1
      in write_body (''console.error('' @ quote e err @ '')'') w2)"

text \<open>
  The stages of the pipeline at which a request can fail, and the ways in which the
  handler returns. Both are labels of the model: they name the \<^verbatim>\<open>return\<close> statement
  that ended the request.
\<close>

datatype stage =
    Fetching
  | UpstreamStatus
  | WorkspaceSetup
  | DependencyDiscovery
  | DependencyInstall
  | Bundling
  | CacheWrite
  | CacheRead

datatype exit_kind = LandingPage | Failed stage | Redirected | NotModified | Served

text \<open>Lines 88-114.\<close>

definition serveBundle ::
  "env \<Rightarrow> cache \<Rightarrow> response_writer \<Rightarrow> request \<Rightarrow> string \<Rightarrow> exit_kind \<times> response_writer" where
  "serveBundle e c w r hash =
     (let cachePath = ''.cache/'' @ hash in
      case os_read_cache e c cachePath of
        Inl err \<Rightarrow> (Failed CacheRead, sendError e w (''Failed to read from cache: '' @ err) err)
      | Inr bundle \<Rightarrow>
          (let etag = etag_of (sha256 e) bundle;
               w1 = header_set ''Access-Control-Allow-Origin'' ''*'' w
           in if header_get r ''If-None-Match'' = etag
              then (NotModified, write_header 304 w1)
              else
                (let w2 = header_set ''Content-Type'' ''application/javascript'' w1;
                     w3 = header_set ''ETag'' etag w2;
                     w4 = header_set ''ETag'' etag w3;
                     w5 = header_set ''Cache-Control'' ''public, max-age=31536000'' w4;
                     w6 = header_set ''Content-Length'' (sprintf_d (length bundle)) w5
                 in (Served, write_body bundle w6))))"

subsection \<open>The handler, stage by stage\<close>

text \<open>
  A stage of the handler ends in one of three ways: it goes on with a value, it calls
  \<^verbatim>\<open>sendError(w, msg, err)\<close> and returns (\<open>Fail\<close> keeps the two arguments and the
  stage), or it panics. With the result come the events of the stage.
\<close>

datatype 'a result = Ok 'a | Fail stage string string | Panic

type_synonym 'a staged = "'a result \<times> event list"

definition and_then :: "'a staged \<Rightarrow> ('a \<Rightarrow> 'b staged) \<Rightarrow> 'b staged" where
  "and_then x f =
     (case x of
        (Ok v, evs) \<Rightarrow> (case f v of (res, evs') \<Rightarrow> (res, evs @ evs'))
      | (Fail st msg err, evs) \<Rightarrow> (Fail st msg err, evs)
      | (Panic, evs) \<Rightarrow> (Panic, evs))"

text \<open>Lines 147-149: the URL to fetch.\<close>

definition target_url :: "request \<Rightarrow> string" where
  "target_url r = (let path = trim_prefix_slash (url_path r) in path @ ''?'' @ raw_query r)"

text \<open>Lines 167-170: the condition of the redirect loop.\<close>

definition is_redirect :: "int \<Rightarrow> bool" where
  "is_redirect code = (code = 301 \<or> code = 302 \<or> code = 303 \<or> code = 307)"

text \<open>
  Lines 167-179: the loop that follows redirects. It has no bound, so it is a partial
  function: \<open>None\<close> is a loop that never ends. \<^verbatim>\<open>u, _ := resp.Location()\<close> drops the
  error; when there is one, \<^verbatim>\<open>u\<close> is \<^verbatim>\<open>nil\<close> and \<^verbatim>\<open>u.String()\<close> panics. The
  last argument collects the events so far.
\<close>

partial_function (option) follow_redirects ::
  "env \<Rightarrow> string \<Rightarrow> upstream \<Rightarrow> event list \<Rightarrow> (string \<times> upstream) staged option" where
  "follow_redirects e fullURL resp evs =
     (if is_redirect (status_code resp) then
        (case location resp of
           None \<Rightarrow> Some (Panic, evs)
         | Some u \<Rightarrow>
             (case http_get e u of
                Inl err \<Rightarrow>
                  Some (Fail Fetching (''Failed to follow redirect: '' @ err) err, evs @ [HttpGet u])
              | Inr resp' \<Rightarrow> follow_redirects e u resp' (evs @ [HttpGet u])))
      else Some (Ok (fullURL, resp), evs))"

declare follow_redirects.simps [code]

text \<open>Lines 181-185: the check of the last response's status.\<close>

definition check_status :: "env \<Rightarrow> string \<times> upstream \<Rightarrow> (string \<times> upstream) staged" where
  "check_status e x =
     (case x of (fullURL, resp) \<Rightarrow>
        if status_code resp \<noteq> 200
        then (Fail UpstreamStatus (''Failed to fetch URL: '' @ status_text resp)
                (errorf_status e (body_data resp)), [])
        else (Ok (fullURL, resp), []))"

text \<open>Lines 160-185: the first request, the redirect loop and the status check.\<close>

definition fetch :: "env \<Rightarrow> string \<Rightarrow> (string \<times> upstream) staged option" where
  "fetch e fullURL =
     (case http_get e fullURL of
        Inl err \<Rightarrow> Some (Fail Fetching (''Failed to fetch URL: '' @ err) err, [HttpGet fullURL])
      | Inr resp \<Rightarrow>
          (case follow_redirects e fullURL resp [HttpGet fullURL] of
             None \<Rightarrow> None
           | Some x \<Rightarrow> Some (and_then x (check_status e))))"

text \<open>Lines 205-210: the body of the response is read.\<close>

definition read_body :: "upstream \<Rightarrow> string staged" where
  "read_body resp =
     (case body_err resp of
        Some err \<Rightarrow> (Fail Fetching (''Failed to read response: '' @ err) err, [])
      | None \<Rightarrow> (Ok (body_data resp), []))"

text \<open>Lines 228-238: the manifest files are copied into the workspace, in order.\<close>

fun copy_files :: "env \<Rightarrow> string \<Rightarrow> string list \<Rightarrow> unit staged" where
  "copy_files e tmpDir [] = (Ok (), [])"
| "copy_files e tmpDir (file # files) =
     (case read_file e file of
        Inl err \<Rightarrow> (Fail WorkspaceSetup (''Failed to read '' @ file @ '': '' @ err) err, [])
      | Inr content \<Rightarrow>
          (case write_file e (tmpDir @ ''/'' @ file) content of
             Some err \<Rightarrow> (Fail WorkspaceSetup (''Failed to write '' @ file @ '': '' @ err) err, [])
           | None \<Rightarrow> copy_files e tmpDir files))"

text \<open>Lines 212-251: the workspace. Its result is \<^verbatim>\<open>tmpDir\<close>.\<close>

definition workspace :: "env \<Rightarrow> string \<Rightarrow> string staged" where
  "workspace e content =
     (case mkdir_temp e of
        Inl err \<Rightarrow> (Fail WorkspaceSetup (''Failed to create temp dir: '' @ err) err, [])
      | Inr tmpDir \<Rightarrow>
          (let srcDir = tmpDir @ ''/src'' in
           case mkdir_all e srcDir of
             Some err \<Rightarrow> (Fail WorkspaceSetup (''Failed to create src dir: '' @ err) err, [])
           | None \<Rightarrow>
               and_then (copy_files e tmpDir [''package.json'', ''bun.lock'', ''tsconfig.json''])
                 (\<lambda>_. case write_file e (srcDir @ ''/index.ts'') content of
                        Some err \<Rightarrow>
                          (Fail WorkspaceSetup (''Failed to write index.ts: '' @ err) err, [])
                      | None \<Rightarrow> (Ok tmpDir, []))))"

text \<open>Lines 273-281: the output of the discovery tool is parsed.\<close>

definition parse_depcheck :: "env \<Rightarrow> string \<Rightarrow> (string \<times> string list) list result" where
  "parse_depcheck e output =
     (case json_unmarshal e output of
        Inl err \<Rightarrow> Fail DependencyDiscovery (''Failed to parse depcheck output: '' @ err) err
      | Inr missing \<Rightarrow> Ok missing)"

text \<open>Lines 255-281: the discovery tool is run and its output parsed.\<close>

definition depcheck_args :: "string list" where
  "depcheck_args = [''depcheck'', ''--json'', ''src/index.ts'']"

definition discovery :: "env \<Rightarrow> string \<Rightarrow> (string \<times> string list) list staged" where
  "discovery e tmpDir =
     (case run_split e ''bunx'' depcheck_args tmpDir of (err, stdout, stderr) \<Rightarrow>
        (case err of
           Some (ExitError code msg) \<Rightarrow>
             if code \<noteq> 255
             then Fail DependencyDiscovery
                    (''Depcheck failed: '' @ stdout @ [CHR 0x0A] @ stderr) msg
             else parse_depcheck e stdout
         | Some (OtherError msg) \<Rightarrow> Fail DependencyDiscovery (''Depcheck failed '' @ msg) msg
         | None \<Rightarrow> parse_depcheck e stdout,
         [Exec ''bunx'' depcheck_args tmpDir]))"

text \<open>Lines 288-294: the arguments of the installer.\<close>

definition install_args :: "(string \<times> string list) list \<Rightarrow> string list" where
  "install_args missing =
     [''install''] @ (if length missing > 0 then [''--save''] else []) @ map fst missing"

text \<open>Lines 295-309: the installer is run, both of its streams captured in one buffer.\<close>

definition install :: "env \<Rightarrow> string \<Rightarrow> (string \<times> string list) list \<Rightarrow> unit staged" where
  "install e tmpDir missing =
     (let args = install_args missing in
      case run_merged e ''bun'' args tmpDir of (err, stdout) \<Rightarrow>
        (case err of
           Some (ExitError code msg) \<Rightarrow>
             Fail DependencyInstall (''bun install failed: '' @ stdout) msg
         | Some (OtherError msg) \<Rightarrow> Fail DependencyInstall (''bun install failed: '' @ msg) msg
         | None \<Rightarrow> Ok (),
         [Exec ''bun'' args tmpDir]))"

text \<open>Lines 311-334: the bundling engine is run and its output file read.\<close>

definition bundle_stage :: "env \<Rightarrow> string \<Rightarrow> string staged" where
  "bundle_stage e tmpDir =
     (let srcDir = tmpDir @ ''/src'';
          entry = [srcDir, ''index.ts''];
          outfile = [tmpDir, ''dist'', ''bundle.js''];
          errors = build e entry outfile
      in (if length errors > 0
          then Fail Bundling ''Build failed'' (errorf_build e errors)
          else (case read_file e (tmpDir @ ''/dist/bundle.js'') of
                  Inl err \<Rightarrow> Fail Bundling (''Failed to read bundle.js: '' @ err) err
                | Inr b \<Rightarrow> Ok b),
          [Build entry outfile]))"

text \<open>Lines 204-334: from the cache miss to the bundle's bytes.\<close>

definition build_bundle :: "env \<Rightarrow> upstream \<Rightarrow> string staged" where
  "build_bundle e resp =
     and_then (read_body resp) (\<lambda>content.
     and_then (workspace e content) (\<lambda>tmpDir.
     and_then (discovery e tmpDir) (\<lambda>missing.
     and_then (install e tmpDir missing) (\<lambda>_.
     bundle_stage e tmpDir))))"

text \<open>
  How a request ends: with a response, or with a panic (which \<^verbatim>\<open>net/http\<close> recovers by
  closing the connection). With it come the cache directory and the events.
\<close>

datatype outcome = Responded exit_kind response_writer | Panicked

type_synonym ending = "outcome \<times> cache \<times> event list"

definition respond :: "exit_kind \<times> response_writer \<Rightarrow> outcome" where
  "respond x = (case x of (k, w) \<Rightarrow> Responded k w)"

text \<open>Lines 191-344: the request for a canonical URL, from the cache key on.\<close>

definition serve_or_build ::
  "env \<Rightarrow> request \<Rightarrow> cache \<Rightarrow> string \<Rightarrow> upstream \<Rightarrow> event list \<Rightarrow> ending" where
  "serve_or_build e r c fullURL resp evs =
     (case cache_key (sha256 e) fullURL of
        None \<Rightarrow> (Panicked, c, evs)
      | Some hash \<Rightarrow>
          (let cachePath = ''.cache/'' @ hash in
           if os_stat_ok e c cachePath
           then (respond (serveBundle e c new_writer r hash), c, evs)
           else
             (case build_bundle e resp of
                (Panic, evs') \<Rightarrow> (Panicked, c, evs @ evs')
              | (Fail st msg err, evs') \<Rightarrow>
                  (Responded (Failed st) (sendError e new_writer msg err), c, evs @ evs')
              | (Ok b, evs') \<Rightarrow>
                  (case os_write_cache e c cachePath b of
                     (Some err, c') \<Rightarrow>
                       (Responded (Failed CacheWrite)
                          (sendError e new_writer (''Failed to write to cache: '' @ err) err),
                        c', evs @ evs')
                   | (None, c') \<Rightarrow>
                       (respond (serveBundle e c' new_writer r hash), c', evs @ evs')))))"

text \<open>
  Lines 138-358: the handler, on a fresh response writer. Logging (\<^verbatim>\<open>slog\<close>,
  \<^verbatim>\<open>fmt.Println\<close>) is left out, and so is \<^verbatim>\<open>loggingMiddleware\<close>, which passes
  every call through to the writer and only records the status and the size for the log.
\<close>

definition handler :: "env \<Rightarrow> request \<Rightarrow> cache \<Rightarrow> ending option" where
  "handler e r c =
     (if url_path r = ''/'' then
        (let w1 = header_set ''Content-Type'' ''text/html; charset=utf-8'' new_writer;
             page = sprintf_html e (''//'' @ host r) (url_scheme r @ ''https://'' @ host r)
         in Some (Responded LandingPage (write_body page w1), c, []))
      else
        (let fullURL = target_url r;
             originalURL = fullURL
         in case fetch e fullURL of
              None \<Rightarrow> None
            | Some (Panic, evs) \<Rightarrow> Some (Panicked, c, evs)
            | Some (Fail st msg err, evs) \<Rightarrow>
                Some (Responded (Failed st) (sendError e new_writer msg err), c, evs)
            | Some (Ok (fullURL', resp), evs) \<Rightarrow>
                if originalURL \<noteq> fullURL'
                then Some (Responded Redirected
                             (write_header 302 (header_set ''Location'' (''/'' @ fullURL') new_writer)),
                           c, evs)
                else Some (serve_or_build e r c fullURL' resp evs)))"

subsection \<open>Notions used in the statements\<close>

text \<open>
  A chain of redirects that starts at a response: every response but the last has one of
  the four redirect statuses and a \<^verbatim>\<open>Location\<close> that resolves to the next URL, and the
  request for that URL succeeds with the next response.
\<close>

fun redirect_chain :: "env \<Rightarrow> upstream \<Rightarrow> (string \<times> upstream) list \<Rightarrow> bool" where
  "redirect_chain e resp [] = True"
| "redirect_chain e resp ((u, resp') # hops) =
     (status_code resp \<in> {301, 302, 303, 307} \<and> location resp = Some u
      \<and> http_get e u = Inr resp' \<and> redirect_chain e resp' hops)"

text \<open>The kinds of events: requests to the network, and runs of the installer.\<close>

definition is_get :: "event \<Rightarrow> bool" where
  "is_get ev =
     (case ev of HttpGet u \<Rightarrow> True | Exec cmd args dir \<Rightarrow> False | Build entry outfile \<Rightarrow> False)"

definition is_install :: "event \<Rightarrow> bool" where
  "is_install ev =
     (case ev of
        HttpGet u \<Rightarrow> False
      | Exec cmd args dir \<Rightarrow> cmd = ''bun''
      | Build entry outfile \<Rightarrow> False)"

subsection \<open>A recogniser of error scripts\<close>

text \<open>
  The texts accepted here are scripts of ECMAScript: one or more expression statements
  \<^verbatim>\<open>console.error("...")\<close>, separated by semicolons, each argument a double-quoted
  string literal. Inside a literal a character is anything but a double quote, a backslash,
  a line feed or a carriage return; a backslash is followed by \<^verbatim>\<open>x\<close> and two
  hexadecimal digits, by \<^verbatim>\<open>u\<close> and four, or by any one character that is neither a
  digit nor a line terminator. This leaves out some literals of the language (line
  continuations, \<^verbatim>\<open>\0\<close>, \<^verbatim>\<open>\u{...}\<close>, octal escapes) and admits none that the
  language refuses, in strict code as in sloppy code. The recogniser reads the text
  character by character, as a lexer does.
\<close>

datatype js_state =
    Prefix nat
  | Quote
  | InString
  | Escape
  | Hex nat
  | Close
  | Done
  | Next
  | Reject

definition is_hex_digit :: "char \<Rightarrow> bool" where
  "is_hex_digit c = (c \<in> set ''0123456789abcdefABCDEF'')"

definition is_dec_digit :: "char \<Rightarrow> bool" where
  "is_dec_digit c = (c \<in> set ''0123456789'')"

definition is_line_terminator :: "char \<Rightarrow> bool" where
  "is_line_terminator c = (c = CHR 0x0A \<or> c = CHR 0x0D)"

definition expect_prefix :: "nat \<Rightarrow> char \<Rightarrow> js_state" where
  "expect_prefix n c =
     (if n < 14 \<and> c = ''console.error('' ! n
      then (if n = 13 then Quote else Prefix (Suc n))
      else Reject)"

fun js_step :: "js_state \<Rightarrow> char \<Rightarrow> js_state" where
  "js_step (Prefix n) c = expect_prefix n c"
| "js_step Quote c = (if c = CHR 0x22 then InString else Reject)"
| "js_step InString c =
     (if c = CHR 0x22 then Close
      else if c = CHR 0x5C then Escape
      else if is_line_terminator c then Reject
      else InString)"
| "js_step Escape c =
     (if is_line_terminator c \<or> is_dec_digit c then Reject
      else if c = CHR ''x'' then Hex 2
      else if c = CHR ''u'' then Hex 4
      else InString)"
| "js_step (Hex n) c =
     (if is_hex_digit c then (if n \<le> 1 then InString else Hex (n - 1)) else Reject)"
| "js_step Close c = (if c = CHR '')'' then Done else Reject)"
| "js_step Done c = (if c = CHR '';'' then Next else Reject)"
| "js_step Next c = expect_prefix 0 c"
| "js_step Reject c = Reject"

definition js_string_literal :: "string \<Rightarrow> bool" where
  "js_string_literal s = (foldl js_step Quote s = Close)"

definition js_script :: "string \<Rightarrow> bool" where
  "js_script s = (foldl js_step (Prefix 0) s = Done \<or> foldl js_step (Prefix 0) s = Next)"

subsection \<open>An example world\<close>

text \<open>
  A small world on which the theorems are applied to concrete requests. The hash is a
  stand-in: the length of the input in the most significant byte and a fixed last byte.
  The encoders put their argument between double quotes.
\<close>

definition example_sha :: "string \<Rightarrow> digest" where
  "example_sha s = push_bit 248 (of_nat (length s)) + 0xAB"

definition dquote :: "string \<Rightarrow> string" where
  "dquote s = [CHR 0x22] @ s @ [CHR 0x22]"

definition moved :: "int \<Rightarrow> string \<Rightarrow> string \<Rightarrow> upstream" where
  "moved code text u =
     \<lparr>status_code = code, status_text = text, location = Some u, body_data = [],
      body_err = None\<rparr>"

definition found_ok :: "string \<Rightarrow> upstream" where
  "found_ok b =
     \<lparr>status_code = 200, status_text = ''200 OK'', location = None, body_data = b,
      body_err = None\<rparr>"

text \<open>
  The example network: \<^verbatim>\<open>https://example.com/mod.ts?\<close> moves permanently to
  \<^verbatim>\<open>mod2.ts\<close>; \<^verbatim>\<open>https://a.example/x?\<close> redirects to \<^verbatim>\<open>https://b.example/y\<close>, which
  redirects to \<^verbatim>\<open>https://c.example/z\<close>; \<^verbatim>\<open>https://example.com/self.ts?\<close> moves to
  the same URL without the question mark; \<^verbatim>\<open>https://example.com/loop\<close> redirects to
  itself; \<^verbatim>\<open>https://example.com/gone.ts?\<close> moves to \<^verbatim>\<open>gone2.ts\<close>, which is not
  found; \<^verbatim>\<open>https://example.com/noloc?\<close> answers 302 without a \<^verbatim>\<open>Location\<close>
  header.
\<close>

definition example_web :: "string \<Rightarrow> string + upstream" where
  "example_web u =
     (if u = ''https://example.com/mod.ts?''
        then Inr (moved 301 ''301 Moved Permanently'' ''https://example.com/mod2.ts'')
      else if u = ''https://example.com/mod2.ts'' then Inr (found_ok ''export default 1;'')
      else if u = ''https://example.com/mod2.ts?'' then Inr (found_ok ''export default 1;'')
      else if u = ''https://a.example/x?''
        then Inr (moved 301 ''301 Moved Permanently'' ''https://b.example/y'')
      else if u = ''https://b.example/y''
        then Inr (moved 307 ''307 Temporary Redirect'' ''https://c.example/z'')
      else if u = ''https://c.example/z'' then Inr (found_ok ''export{};'')
      else if u = ''https://example.com/self.ts?''
        then Inr (moved 301 ''301 Moved Permanently'' ''https://example.com/self.ts'')
      else if u = ''https://example.com/self.ts'' then Inr (found_ok ''export{};'')
      else if u = ''https://example.com/loop''
        then Inr (moved 302 ''302 Found'' ''https://example.com/loop'')
      else if u = ''https://example.com/gone.ts?''
        then Inr (moved 301 ''301 Moved Permanently'' ''https://example.com/gone2.ts'')
      else if u = ''https://example.com/gone2.ts''
        then Inr \<lparr>status_code = 404, status_text = ''404 Not Found'', location = None,
                  body_data = ''not found'', body_err = None\<rparr>
      else if u = ''https://example.com/noloc?''
        then Inr \<lparr>status_code = 302, status_text = ''302 Found'', location = None,
                  body_data = [], body_err = None\<rparr>
      else Inl ''connection refused'')"

definition example_files :: "string \<Rightarrow> string + string" where
  "example_files p =
     (if p = ''package.json'' then Inr ''{}''
      else if p = ''bun.lock'' then Inr ''{}''
      else if p = ''tsconfig.json'' then Inr ''{}''
      else if p = ''/tmp/vite-build-1/dist/bundle.js'' then Inr ''export default 1;''
      else Inl ''no such file or directory'')"

definition example_env :: env where
  "example_env =
     \<lparr>sha256 = example_sha,
      json_marshal = dquote,
      quote = dquote,
      errorf_status = (\<lambda>b. ''status '' @ b),
      errorf_build = (\<lambda>msgs. ''build failed: '' @ concat msgs @ '' errors''),
      sprintf_html = (\<lambda>a b. a @ b),
      http_get = example_web,
      mkdir_temp = Inr ''/tmp/vite-build-1'',
      mkdir_all = (\<lambda>p. None),
      read_file = example_files,
      write_file = (\<lambda>p b. None),
      run_split = (\<lambda>cmd args dir. (Some (ExitError 255 ''exit status 255''), ''{}'', [])),
      run_merged = (\<lambda>cmd args dir. (None, ''done'')),
      json_unmarshal = (\<lambda>s. Inr [(''left-pad'', [''src/index.ts''])]),
      build = (\<lambda>entry outfile. []),
      stat_fault = (\<lambda>p. False),
      read_fault = (\<lambda>p. None),
      write_fault = (\<lambda>p b. None)\<rparr>"

definition example_request :: "string \<Rightarrow> request" where
  "example_request p =
     \<lparr>url_path = p, raw_query = [], host = ''localhost:8000'', url_scheme = [],
      req_header = Map.empty\<rparr>"

text \<open>
  Variants of the example world: one in which the bundling engine reports an error, one
  in which the discovery tool exits with code 1, and one in which the installer fails.
\<close>

definition failing_build_env :: env where
  "failing_build_env = example_env\<lparr>build := (\<lambda>entry outfile. [''Unexpected token''])\<rparr>"


definition failing_install_env :: env where
  "failing_install_env =
     example_env\<lparr>run_merged :=
       (\<lambda>cmd args dir. (Some (ExitError 1 ''exit status 1''), ''error: no such package''))\<rparr>"

text \<open>
  A world whose encoders escape what a string literal must not hold, and whose network
  is down with an error text that has double quotes in it.
\<close>

definition js_escape :: "char \<Rightarrow> string" where
  "js_escape c =
     (if c = CHR 0x22 then [CHR 0x5C, CHR 0x22]
      else if c = CHR 0x5C then [CHR 0x5C, CHR 0x5C]
      else if c = CHR 0x0A then [CHR 0x5C, CHR ''n'']
      else if c = CHR 0x0D then [CHR 0x5C, CHR ''r'']
      else [c])"

definition js_quote :: "string \<Rightarrow> string" where
  "js_quote s = [CHR 0x22] @ concat (map js_escape s) @ [CHR 0x22]"

definition quoting_env :: env where
  "quoting_env =
     example_env\<lparr>json_marshal := js_quote, quote := js_quote,
       http_get := (\<lambda>u. Inl (''lookup '' @ dquote ''nowhere'' @ '': no such host''))\<rparr>"

text \<open>A world in which the discovery tool finds nothing missing.\<close>

definition nothing_missing_env :: env where
  "nothing_missing_env = example_env\<lparr>json_unmarshal := (\<lambda>s. Inr [])\<rparr>"

section \<open>Properties of the model\<close>

subsection \<open>Digests, keys and ETags\<close>

lemma length_digest_bytes: "length (digest_bytes d) = 32"
  by (simp add: digest_bytes_def)

lemma length_hex_byte: "length (hex_byte b) = 2"
  by (simp add: hex_byte_def)

lemma length_sprintf_x: "length (sprintf_x bs) = 2 * length bs"
  by (induction bs) (simp_all add: sprintf_x_def length_hex_byte)

lemma hex_digit_is_hex: "is_hex_char (hex_digit n)"
proof -
  have "n mod 16 < length ''0123456789abcdef''" by simp
  then have "''0123456789abcdef'' ! (n mod 16) \<in> set ''0123456789abcdef''"
    by (rule nth_mem)
  then show ?thesis by (simp only: hex_digit_def is_hex_char_def)
qed

lemma sprintf_x_is_hex: "list_all is_hex_char (sprintf_x bs)"
  by (induction bs) (simp_all add: sprintf_x_def hex_byte_def hex_digit_is_hex)

lemma list_all_take: "list_all P xs \<Longrightarrow> list_all P (take n xs)"
  by (auto simp: list_all_iff dest: in_set_takeD)

lemma cache_key_Some:
  "cache_key sha url = Some (take 20 (sprintf_x (digest_bytes (sha url))))"
  by (simp add: cache_key_def slice_to_def length_sprintf_x length_digest_bytes)

lemma sprintf_x_take: "sprintf_x (take n bs) = take (2 * n) (sprintf_x bs)"
proof (induction bs arbitrary: n)
  case Nil
  then show ?case by (simp add: sprintf_x_def)
next
  case (Cons b bs)
  show ?case
  proof (cases n)
    case 0
    then show ?thesis by (simp add: sprintf_x_def)
  next
    case (Suc m)
    have "sprintf_x (take m bs) = take (2 * m) (sprintf_x bs)" by (rule Cons.IH)
    then show ?thesis
      by (simp add: Suc sprintf_x_def hex_byte_def)
  qed
qed

lemma length_etag: "length (etag_of sha b) = 34"
  by (simp add: etag_of_def length_sprintf_x length_digest_bytes)

subsection \<open>The response writer\<close>

lemma sendError_new:
  "sendError e new_writer msg err =
     \<lparr>rw_header = [''Content-Type'' \<mapsto> ''application/javascript''],
      rw_status = Some 200,
      rw_body = ''console.error('' @ json_marshal e msg @ '');console.error('' @ quote e err @ '')''\<rparr>"
  by (simp add: sendError_def new_writer_def header_set_def write_body_def write_header_def Let_def)

lemma serveBundle_ok:
  assumes "os_read_cache e c (''.cache/'' @ hash) = Inr b"
  shows "serveBundle e c new_writer r hash =
          (if header_get r ''If-None-Match'' = etag_of (sha256 e) b
           then (NotModified,
                 \<lparr>rw_header = [''Access-Control-Allow-Origin'' \<mapsto> ''*''],
                  rw_status = Some 304, rw_body = []\<rparr>)
           else (Served,
                 \<lparr>rw_header = [''Access-Control-Allow-Origin'' \<mapsto> ''*'',
                               ''Content-Type'' \<mapsto> ''application/javascript'',
                               ''ETag'' \<mapsto> etag_of (sha256 e) b,
                               ''Cache-Control'' \<mapsto> ''public, max-age=31536000'',
                               ''Content-Length'' \<mapsto> sprintf_d (length b)],
                  rw_status = Some 200, rw_body = b\<rparr>))"
  using assms
  by (simp add: serveBundle_def Let_def new_writer_def header_set_def write_body_def
      write_header_def)

lemma serveBundle_kinds:
  "serveBundle e c w r h = (k, w') \<Longrightarrow> k = Failed CacheRead \<or> k = NotModified \<or> k = Served"
  by (auto simp: serveBundle_def Let_def split: sum.splits if_splits)

lemma serveBundle_failed:
  "serveBundle e c new_writer r h = (Failed st, w) \<Longrightarrow>
     st = CacheRead \<and> (\<exists>msg err. w = sendError e new_writer msg err)"
  by (auto simp: serveBundle_def Let_def split: sum.splits if_splits)

subsection \<open>The redirect loop\<close>

text \<open>
  The loop is a partial function: what holds of every result it returns is proved by
  induction over its unfoldings, and that it returns at all is proved along a chain.
\<close>

lemma is_redirect_iff: "is_redirect code \<longleftrightarrow> code \<in> {301, 302, 303, 307}"
  by (auto simp: is_redirect_def)

lemma follow_redirects_stop:
  "\<not> is_redirect (status_code resp) \<Longrightarrow> follow_redirects e url resp evs = Some (Ok (url, resp), evs)"
  by (subst follow_redirects.simps) simp

lemma follow_redirects_step:
  "is_redirect (status_code resp) \<Longrightarrow> location resp = Some u \<Longrightarrow> http_get e u = Inr resp' \<Longrightarrow>
   follow_redirects e url resp evs = follow_redirects e u resp' (evs @ [HttpGet u])"
  by (subst follow_redirects.simps) simp

lemma follow_redirects_nil:
  "is_redirect (status_code resp) \<Longrightarrow> location resp = None \<Longrightarrow>
   follow_redirects e url resp evs = Some (Panic, evs)"
  by (subst follow_redirects.simps) simp

lemma follow_redirects_chain:
  "redirect_chain e resp hops \<Longrightarrow> \<not> is_redirect (status_code (last (resp # map snd hops))) \<Longrightarrow>
   follow_redirects e url resp evs =
     Some (Ok (last (url # map fst hops), last (resp # map snd hops)),
           evs @ map (HttpGet \<circ> fst) hops)"
proof (induction hops arbitrary: url resp evs)
  case Nil
  then show ?case by (simp add: follow_redirects_stop)
next
  case (Cons h hops)
  obtain u resp' where h: "h = (u, resp')" by (cases h)
  from Cons.prems(1) have red: "is_redirect (status_code resp)"
    and loc: "location resp = Some u" and get: "http_get e u = Inr resp'"
    and rest: "redirect_chain e resp' hops"
    by (simp_all add: h is_redirect_iff)
  from Cons.prems(2) have fin: "\<not> is_redirect (status_code (last (resp' # map snd hops)))"
    by (simp add: h)
  have "follow_redirects e url resp evs = follow_redirects e u resp' (evs @ [HttpGet u])"
    using red loc get by (rule follow_redirects_step)
  also have "\<dots> = Some (Ok (last (u # map fst hops), last (resp' # map snd hops)),
           (evs @ [HttpGet u]) @ map (HttpGet \<circ> fst) hops)"
    using rest fin by (rule Cons.IH)
  finally show ?case by (simp add: h)
qed

lemma follow_redirects_result:
  assumes "follow_redirects e url resp evs = Some (res, evs')"
  shows "\<exists>rest. evs' = evs @ rest \<and> list_all is_get rest
           \<and> (\<forall>st msg err. res = Fail st msg err \<longrightarrow> st = Fetching)"
proof -
  have "\<exists>rest. snd (res, evs') = evs @ rest \<and> list_all is_get rest
           \<and> (\<forall>st msg err. fst (res, evs') = Fail st msg err \<longrightarrow> st = Fetching)"
  proof (rule follow_redirects.raw_induct
      [where P = "\<lambda>e url resp evs y. \<exists>rest. snd y = evs @ rest \<and> list_all is_get rest
           \<and> (\<forall>st msg err. fst y = Fail st msg err \<longrightarrow> st = Fetching)",
        OF _ assms])
    fix f :: "env \<Rightarrow> string \<Rightarrow> upstream \<Rightarrow> event list \<Rightarrow> (string \<times> upstream) staged option"
      and e :: env and url :: string and resp :: upstream and evs :: "event list"
      and y :: "(string \<times> upstream) staged"
    assume IH: "\<And>e url resp evs y. f e url resp evs = Some y \<Longrightarrow>
                  \<exists>rest. snd y = evs @ rest \<and> list_all is_get rest
                    \<and> (\<forall>st msg err. fst y = Fail st msg err \<longrightarrow> st = Fetching)"
      and body: "(if is_redirect (status_code resp) then
        (case location resp of
           None \<Rightarrow> Some (Panic, evs)
         | Some u \<Rightarrow>
             (case http_get e u of
                Inl err \<Rightarrow>
                  Some (Fail Fetching (''Failed to follow redirect: '' @ err) err, evs @ [HttpGet u])
              | Inr resp' \<Rightarrow> f e u resp' (evs @ [HttpGet u])))
      else Some (Ok (url, resp), evs)) = Some y"
    show "\<exists>rest. snd y = evs @ rest \<and> list_all is_get rest
            \<and> (\<forall>st msg err. fst y = Fail st msg err \<longrightarrow> st = Fetching)"
    proof (cases "is_redirect (status_code resp)")
      case False
      with body show ?thesis by auto
    next
      case True
      show ?thesis
      proof (cases "location resp")
        case None
        with True body show ?thesis by auto
      next
        case (Some u)
        show ?thesis
        proof (cases "http_get e u")
          case (Inl err)
          with True Some body show ?thesis by (auto simp: is_get_def)
        next
          case (Inr resp')
          with True Some body have "f e u resp' (evs @ [HttpGet u]) = Some y" by simp
          from IH [OF this] obtain rest where "snd y = (evs @ [HttpGet u]) @ rest"
            and "list_all is_get rest"
            and "\<forall>st msg err. fst y = Fail st msg err \<longrightarrow> st = Fetching"
            by blast
          then have "snd y = evs @ (HttpGet u # rest) \<and> list_all is_get (HttpGet u # rest)
            \<and> (\<forall>st msg err. fst y = Fail st msg err \<longrightarrow> st = Fetching)"
            by (simp add: is_get_def)
          then show ?thesis by blast
        qed
      qed
    qed
  qed
  then show ?thesis by simp
qed

lemma follow_redirects_self_loop:
  assumes "http_get e u = Inr resp" "is_redirect (status_code resp)" "location resp = Some u"
  shows "follow_redirects e u resp evs = None"
proof (rule ccontr)
  assume "follow_redirects e u resp evs \<noteq> None"
  then obtain y where y: "follow_redirects e u resp evs = Some y" by blast
  have "\<not> (e = e \<and> u = u \<and> resp = resp)"
  proof (rule follow_redirects.raw_induct
      [where P = "\<lambda>e' u' resp' (evs' :: event list) (y' :: (string \<times> upstream) staged).
                    \<not> (e' = e \<and> u' = u \<and> resp' = resp)", OF _ y])
    fix f :: "env \<Rightarrow> string \<Rightarrow> upstream \<Rightarrow> event list \<Rightarrow> (string \<times> upstream) staged option"
      and e' :: env and u' :: string and resp' :: upstream and evs' :: "event list"
      and y' :: "(string \<times> upstream) staged"
    assume IH: "\<And>e' u' resp' evs' y'. f e' u' resp' evs' = Some y' \<Longrightarrow>
                  \<not> (e' = e \<and> u' = u \<and> resp' = resp)"
      and body: "(if is_redirect (status_code resp') then
        (case location resp' of
           None \<Rightarrow> Some (Panic, evs')
         | Some u \<Rightarrow>
             (case http_get e' u of
                Inl err \<Rightarrow>
                  Some (Fail Fetching (''Failed to follow redirect: '' @ err) err, evs' @ [HttpGet u])
              | Inr resp'' \<Rightarrow> f e' u resp'' (evs' @ [HttpGet u])))
      else Some (Ok (u', resp'), evs')) = Some y'"
    show "\<not> (e' = e \<and> u' = u \<and> resp' = resp)"
    proof
      assume eq: "e' = e \<and> u' = u \<and> resp' = resp"
      with body assms have "f e u resp (evs' @ [HttpGet u]) = Some y'" by simp
      from IH [OF this] show False by simp
    qed
  qed
  then show False by simp
qed

lemma fetch_result:
  assumes "fetch e url = Some (res, evs)"
  shows "(\<exists>rest. evs = HttpGet url # rest) \<and> list_all is_get evs
       \<and> (\<forall>st msg err. res = Fail st msg err \<longrightarrow> st = Fetching \<or> st = UpstreamStatus)"
proof (cases "http_get e url")
  case (Inl err)
  with assms show ?thesis by (auto simp: fetch_def is_get_def)
next
  case (Inr resp)
  with assms obtain x where x: "follow_redirects e url resp [HttpGet url] = Some x"
    and res: "(res, evs) = and_then x (check_status e)"
    by (auto simp: fetch_def split: option.splits)
  obtain res0 evs0 where x0: "x = (res0, evs0)" by (cases x)
  from follow_redirects_result [OF x [unfolded x0]]
  obtain rest where evs0: "evs0 = [HttpGet url] @ rest" and rest: "list_all is_get rest"
    and st0: "\<forall>st msg err. res0 = Fail st msg err \<longrightarrow> st = Fetching"
    by blast
  from res x0 evs0 rest st0 show ?thesis
    by (cases res0)
      (auto simp: and_then_def check_status_def is_get_def split: prod.splits if_splits)
qed

lemma fetch_gets: "fetch e url = Some (res, evs) \<Longrightarrow> list_all is_get evs"
  by (simp add: fetch_result)

lemma fetch_direct:
  assumes "http_get e url = Inr resp" and "status_code resp = 200"
  shows "fetch e url = Some (Ok (url, resp), [HttpGet url])"
proof -
  from assms(2) have "\<not> is_redirect (status_code resp)" by (simp add: is_redirect_def)
  then have "follow_redirects e url resp [HttpGet url] = Some (Ok (url, resp), [HttpGet url])"
    by (rule follow_redirects_stop)
  with assms show ?thesis by (simp add: fetch_def and_then_def check_status_def)
qed

subsection \<open>The stages of a build\<close>

lemma and_then_Ok: "and_then (Ok v, evs) f = (fst (f v), evs @ snd (f v))"
  by (simp add: and_then_def split: prod.splits)

lemma and_then_Fail: "and_then (Fail st msg err, evs) f = (Fail st msg err, evs)"
  by (simp add: and_then_def)

lemma read_body_cases:
  "read_body resp = (res, evs) \<Longrightarrow>
     evs = [] \<and> (res = Ok (body_data resp) \<and> body_err resp = None
                \<or> (\<exists>msg err. res = Fail Fetching msg err))"
  by (auto simp: read_body_def split: option.splits)

lemma copy_files_cases:
  "copy_files e tmpDir files = (res, evs) \<Longrightarrow>
     evs = [] \<and> (res = Ok () \<or> (\<exists>msg err. res = Fail WorkspaceSetup msg err))"
  by (induction files) (auto split: sum.splits option.splits)

lemma workspace_cases:
  assumes "workspace e content = (res, evs)"
  shows "evs = [] \<and> ((\<exists>tmpDir. res = Ok tmpDir) \<or> (\<exists>msg err. res = Fail WorkspaceSetup msg err))"
proof (cases "mkdir_temp e")
  case (Inl err)
  with assms show ?thesis by (auto simp: workspace_def)
next
  case (Inr tmpDir)
  show ?thesis
  proof (cases "mkdir_all e (tmpDir @ ''/src'')")
    case (Some err)
    with Inr assms show ?thesis by (auto simp: workspace_def Let_def)
  next
    case None
    obtain res1 evs1
      where cp: "copy_files e tmpDir [''package.json'', ''bun.lock'', ''tsconfig.json''] = (res1, evs1)"
      by (cases "copy_files e tmpDir [''package.json'', ''bun.lock'', ''tsconfig.json'']")
    from copy_files_cases [OF cp]
    have evs1: "evs1 = []"
      and res1: "res1 = Ok () \<or> (\<exists>msg err. res1 = Fail WorkspaceSetup msg err)"
      by simp_all
    from assms Inr None cp evs1 res1 show ?thesis
      by (auto simp: workspace_def Let_def and_then_def split: option.splits)
  qed
qed

lemma parse_depcheck_cases:
  "(\<exists>missing. parse_depcheck e output = Ok missing)
   \<or> (\<exists>msg err. parse_depcheck e output = Fail DependencyDiscovery msg err)"
  by (auto simp: parse_depcheck_def split: sum.splits)

lemma discovery_cases:
  assumes "discovery e tmpDir = (res, evs)"
  shows "evs = [Exec ''bunx'' depcheck_args tmpDir]
       \<and> ((\<exists>missing. res = Ok missing) \<or> (\<exists>msg err. res = Fail DependencyDiscovery msg err))"
proof -
  obtain err out errout where run: "run_split e ''bunx'' depcheck_args tmpDir = (err, out, errout)"
    by (cases "run_split e ''bunx'' depcheck_args tmpDir")
  from parse_depcheck_cases [of e out] assms run show ?thesis
    by (auto simp: discovery_def split: option.splits run_error.splits if_splits)
qed

lemma install_cases:
  assumes "install e tmpDir missing = (res, evs)"
  shows "evs = [Exec ''bun'' (install_args missing) tmpDir]
       \<and> (res = Ok () \<or> (\<exists>msg err. res = Fail DependencyInstall msg err))"
proof -
  obtain err out where run: "run_merged e ''bun'' (install_args missing) tmpDir = (err, out)"
    by (cases "run_merged e ''bun'' (install_args missing) tmpDir")
  from assms run show ?thesis
    by (auto simp: install_def Let_def split: option.splits run_error.splits)
qed

lemma bundle_stage_cases:
  assumes "bundle_stage e tmpDir = (res, evs)"
  shows "evs = [Build [tmpDir @ ''/src'', ''index.ts''] [tmpDir, ''dist'', ''bundle.js'']]
       \<and> ((\<exists>b. res = Ok b
               \<and> build e [tmpDir @ ''/src'', ''index.ts''] [tmpDir, ''dist'', ''bundle.js''] = []
               \<and> read_file e (tmpDir @ ''/dist/bundle.js'') = Inr b)
            \<or> (\<exists>msg err. res = Fail Bundling msg err))"
  using assms by (auto simp: bundle_stage_def Let_def split: if_splits sum.splits)

lemma build_bundle_cases:
  assumes "build_bundle e resp = (res, evs)"
  shows "(evs = [] \<and> (\<exists>msg err. res = Fail Fetching msg err \<or> res = Fail WorkspaceSetup msg err))
       \<or> (\<exists>tmpDir. evs = [Exec ''bunx'' depcheck_args tmpDir]
             \<and> (\<exists>msg err. res = Fail DependencyDiscovery msg err))
       \<or> (\<exists>tmpDir missing.
             evs = [Exec ''bunx'' depcheck_args tmpDir, Exec ''bun'' (install_args missing) tmpDir]
             \<and> (\<exists>msg err. res = Fail DependencyInstall msg err))
       \<or> (\<exists>tmpDir missing.
             evs = [Exec ''bunx'' depcheck_args tmpDir, Exec ''bun'' (install_args missing) tmpDir,
                    Build [tmpDir @ ''/src'', ''index.ts''] [tmpDir, ''dist'', ''bundle.js'']]
             \<and> ((\<exists>msg err. res = Fail Bundling msg err)
                \<or> (\<exists>b. res = Ok b
                      \<and> build e [tmpDir @ ''/src'', ''index.ts''] [tmpDir, ''dist'', ''bundle.js''] = []
                      \<and> read_file e (tmpDir @ ''/dist/bundle.js'') = Inr b)))"
proof -
  obtain r1 e1 where s1: "read_body resp = (r1, e1)" by (cases "read_body resp")
  from read_body_cases [OF s1] have e1: "e1 = []"
    and r1: "r1 = Ok (body_data resp) \<or> (\<exists>msg err. r1 = Fail Fetching msg err)" by auto
  from r1 show ?thesis
  proof
    assume "\<exists>msg err. r1 = Fail Fetching msg err"
    with assms s1 e1 show ?thesis by (auto simp: build_bundle_def and_then_Fail)
  next
    assume ok1: "r1 = Ok (body_data resp)"
    obtain r2 e2 where s2: "workspace e (body_data resp) = (r2, e2)"
      by (cases "workspace e (body_data resp)")
    from workspace_cases [OF s2] have e2: "e2 = []"
      and r2: "(\<exists>tmpDir. r2 = Ok tmpDir) \<or> (\<exists>msg err. r2 = Fail WorkspaceSetup msg err)" by auto
    from r2 show ?thesis
    proof
      assume "\<exists>msg err. r2 = Fail WorkspaceSetup msg err"
      with assms s1 e1 ok1 s2 e2 show ?thesis
        by (auto simp: build_bundle_def and_then_Fail and_then_Ok)
    next
      assume "\<exists>tmpDir. r2 = Ok tmpDir"
      then obtain tmpDir where ok2: "r2 = Ok tmpDir" by blast
      obtain r3 e3 where s3: "discovery e tmpDir = (r3, e3)" by (cases "discovery e tmpDir")
      from discovery_cases [OF s3] have e3: "e3 = [Exec ''bunx'' depcheck_args tmpDir]"
        and r3: "(\<exists>missing. r3 = Ok missing) \<or> (\<exists>msg err. r3 = Fail DependencyDiscovery msg err)"
        by auto
      from r3 show ?thesis
      proof
        assume "\<exists>msg err. r3 = Fail DependencyDiscovery msg err"
        with assms s1 e1 ok1 s2 e2 ok2 s3 e3 show ?thesis
          by (auto simp: build_bundle_def and_then_Fail and_then_Ok)
      next
        assume "\<exists>missing. r3 = Ok missing"
        then obtain missing where ok3: "r3 = Ok missing" by blast
        obtain r4 e4 where s4: "install e tmpDir missing = (r4, e4)"
          by (cases "install e tmpDir missing")
        from install_cases [OF s4] have e4: "e4 = [Exec ''bun'' (install_args missing) tmpDir]"
          and r4: "r4 = Ok () \<or> (\<exists>msg err. r4 = Fail DependencyInstall msg err)" by auto
        from r4 show ?thesis
        proof
          assume "\<exists>msg err. r4 = Fail DependencyInstall msg err"
          with assms s1 e1 ok1 s2 e2 ok2 s3 e3 ok3 s4 e4 show ?thesis
            by (auto simp: build_bundle_def and_then_Fail and_then_Ok)
        next
          assume ok4: "r4 = Ok ()"
          obtain r5 e5 where s5: "bundle_stage e tmpDir = (r5, e5)"
            by (cases "bundle_stage e tmpDir")
          from assms s1 e1 ok1 s2 e2 ok2 s3 e3 ok3 s4 e4 ok4 s5
          have res: "res = r5"
            and evs: "evs = [Exec ''bunx'' depcheck_args tmpDir,
                            Exec ''bun'' (install_args missing) tmpDir] @ e5"
            by (simp_all add: build_bundle_def and_then_Ok)
          from bundle_stage_cases [OF s5] res evs show ?thesis by auto
        qed
      qed
    qed
  qed
qed

lemma build_bundle_no_panic: "build_bundle e resp \<noteq> (Panic, evs)"
  using build_bundle_cases [of e resp Panic evs] by auto

subsection \<open>The recogniser of error scripts\<close>

text \<open>
  The recogniser is a fold over the text, so it reads a concatenation piece by piece:
  two statements with well-formed literals make a script.
\<close>

lemma js_prefix_from:
  "foldl js_step (Prefix 0) ''console.error('' = Quote"
  by (simp add: expect_prefix_def)

lemma js_next_from:
  "foldl js_step Next ''console.error('' = Quote"
  by (simp add: expect_prefix_def)

lemma js_statement:
  assumes "js_string_literal l"
  shows "foldl js_step (Prefix 0) (''console.error('' @ l @ '')'') = Done"
    and "foldl js_step Next (''console.error('' @ l @ '')'') = Done"
proof -
  from assms have lit: "foldl js_step Quote l = Close" by (simp add: js_string_literal_def)
  have close: "foldl js_step Close '')'' = Done" by simp
  show "foldl js_step (Prefix 0) (''console.error('' @ l @ '')'') = Done"
    by (simp only: foldl_append js_prefix_from lit close)
  show "foldl js_step Next (''console.error('' @ l @ '')'') = Done"
    by (simp only: foldl_append js_next_from lit close)
qed

lemma js_two_statements:
  assumes "js_string_literal l1" and "js_string_literal l2"
  shows "js_script (''console.error('' @ l1 @ '');'' @ ''console.error('' @ l2 @ '')'')"
proof -
  define first where "first = ''console.error('' @ l1 @ '')''"
  define second where "second = ''console.error('' @ l2 @ '')''"
  have one: "foldl js_step (Prefix 0) first = Done"
    unfolding first_def by (rule js_statement(1) [OF assms(1)])
  have semi: "foldl js_step Done '';'' = Next" by simp
  have two: "foldl js_step Next second = Done"
    unfolding second_def by (rule js_statement(2) [OF assms(2)])
  have "foldl js_step (Prefix 0) (first @ '';'' @ second) = Done"
    by (simp only: foldl_append one semi two)
  then have "js_script (first @ '';'' @ second)" by (simp only: js_script_def) simp
  moreover have "''console.error('' @ l1 @ '');'' @ ''console.error('' @ l2 @ '')'' =
      first @ '';'' @ second"
    by (simp add: first_def second_def)
  ultimately show ?thesis by (simp only:)
qed

lemma js_escape_in_string: "foldl js_step InString (js_escape c) = InString"
  by (simp add: js_escape_def is_line_terminator_def is_dec_digit_def)

lemma js_escapes_in_string: "foldl js_step InString (concat (map js_escape s)) = InString"
  by (induction s) (simp_all add: js_escape_in_string)

lemma js_quote_literal: "js_string_literal (js_quote s)"
  by (simp add: js_string_literal_def js_quote_def js_escapes_in_string)

subsection \<open>The handler\<close>

lemma serve_or_build_failed:
  "serve_or_build e r c u resp evs = (Responded (Failed st) w, c', evs') \<Longrightarrow>
     \<exists>msg err. w = sendError e new_writer msg err"
  by (auto simp: serve_or_build_def Let_def respond_def
      split: option.splits if_splits prod.splits result.splits dest: serveBundle_failed)

lemma handler_failed:
  "handler e r c = Some (Responded (Failed st) w, c', evs) \<Longrightarrow>
     \<exists>msg err. w = sendError e new_writer msg err"
  by (auto simp: handler_def Let_def
      split: option.splits if_splits prod.splits result.splits dest: serve_or_build_failed)

lemma serve_or_build_shape:
  assumes "serve_or_build e r c url resp evs = (out, c', evs')"
  shows "(c' = c \<and> evs' = evs
            \<and> (\<exists>k w. out = Responded k w \<and> (k = Failed CacheRead \<or> k = NotModified \<or> k = Served)))
       \<or> (\<exists>st msg err evs1. build_bundle e resp = (Fail st msg err, evs1)
             \<and> c' = c \<and> evs' = evs @ evs1
             \<and> out = Responded (Failed st) (sendError e new_writer msg err))
       \<or> (\<exists>b evs1. build_bundle e resp = (Ok b, evs1) \<and> evs' = evs @ evs1
             \<and> (\<exists>k w. out = Responded k w
                   \<and> (k = Failed CacheWrite \<or> k = Failed CacheRead \<or> k = NotModified \<or> k = Served)))"
proof -
  let ?p = "''.cache/'' @ take 20 (sprintf_x (digest_bytes (sha256 e url)))"
  show ?thesis
  proof (cases "os_stat_ok e c ?p")
    case True
    obtain k w where sb: "serveBundle e c new_writer r (take 20 (sprintf_x (digest_bytes (sha256 e url)))) = (k, w)"
      by (cases "serveBundle e c new_writer r (take 20 (sprintf_x (digest_bytes (sha256 e url))))")
    from serveBundle_kinds [OF sb] True assms sb show ?thesis
      by (auto simp: serve_or_build_def cache_key_Some Let_def respond_def)
  next
    case False
    obtain res evs1 where bb: "build_bundle e resp = (res, evs1)" by (cases "build_bundle e resp")
    show ?thesis
    proof (cases res)
      case Panic
      with bb build_bundle_no_panic show ?thesis by blast
    next
      case (Fail st msg err)
      with False bb assms show ?thesis
        by (auto simp: serve_or_build_def cache_key_Some Let_def)
    next
      case (Ok b)
      obtain werr c1 where wr: "os_write_cache e c ?p b = (werr, c1)"
        by (cases "os_write_cache e c ?p b")
      show ?thesis
      proof (cases werr)
        case (Some err)
        with False bb Ok wr assms show ?thesis
          by (auto simp: serve_or_build_def cache_key_Some Let_def)
      next
        case None
        obtain k w where sb: "serveBundle e c1 new_writer r (take 20 (sprintf_x (digest_bytes (sha256 e url)))) = (k, w)"
          by (cases "serveBundle e c1 new_writer r (take 20 (sprintf_x (digest_bytes (sha256 e url))))")
        from serveBundle_kinds [OF sb] None False bb Ok wr assms sb show ?thesis
          by (auto simp: serve_or_build_def cache_key_Some Let_def respond_def)
      qed
    qed
  qed
qed

lemma handler_shape:
  assumes "handler e r c = Some (out, c', evs)"
  shows "(c' = c \<and> (\<exists>k w. out = Responded k w \<and> k \<noteq> Failed CacheWrite) \<and> list_all is_get evs)
       \<or> (c' = c \<and> out = Panicked \<and> list_all is_get evs)
       \<or> (\<exists>resp evs0 evs1. list_all is_get evs0 \<and> evs = evs0 @ evs1
             \<and> ((\<exists>st msg err. build_bundle e resp = (Fail st msg err, evs1) \<and> c' = c
                     \<and> out = Responded (Failed st) (sendError e new_writer msg err))
                \<or> (\<exists>b. build_bundle e resp = (Ok b, evs1)
                     \<and> (\<exists>k w. out = Responded k w
                   \<and> (k = Failed CacheWrite \<or> k = Failed CacheRead \<or> k = NotModified \<or> k = Served)))))"
proof (cases "url_path r = ''/''")
  case True
  with assms show ?thesis by (auto simp: handler_def Let_def)
next
  case False
  from assms False obtain res evs0 where f: "fetch e (target_url r) = Some (res, evs0)"
    by (auto simp: handler_def Let_def split: option.splits)
  from fetch_gets [OF f] have gets: "list_all is_get evs0" .
  show ?thesis
  proof (cases res)
    case Panic
    with assms False f gets show ?thesis by (auto simp: handler_def Let_def)
  next
    case (Fail st msg err)
    from fetch_result [OF f] Fail have "st \<noteq> CacheWrite" by auto
    with Fail assms False f gets show ?thesis by (auto simp: handler_def Let_def)
  next
    case (Ok x)
    obtain u resp where x: "x = (u, resp)" by (cases x)
    show ?thesis
    proof (cases "u = target_url r")
      case neq: False
      with Ok x assms False f gets show ?thesis by (auto simp: handler_def Let_def)
    next
      case True
      with Ok x assms False f have "serve_or_build e r c u resp evs0 = (out, c', evs)"
        by (auto simp: handler_def Let_def)
      from serve_or_build_shape [OF this] gets show ?thesis by blast
    qed
  qed
qed

lemma handler_fetch:
  assumes "url_path r \<noteq> ''/''" and "handler e r c = Some (out, c', evs)"
  shows "\<exists>res evs0 evs1. fetch e (target_url r) = Some (res, evs0) \<and> evs = evs0 @ evs1"
proof -
  from assms obtain res evs0 where f: "fetch e (target_url r) = Some (res, evs0)"
    by (auto simp: handler_def Let_def split: option.splits)
  show ?thesis
  proof (cases res)
    case Panic
    with assms f show ?thesis by (auto simp: handler_def Let_def)
  next
    case (Fail st msg err)
    with assms f show ?thesis by (auto simp: handler_def Let_def)
  next
    case (Ok x)
    obtain u resp where x: "x = (u, resp)" by (cases x)
    show ?thesis
    proof (cases "u = target_url r")
      case False
      with Ok x assms f show ?thesis by (auto simp: handler_def Let_def)
    next
      case True
      with Ok x assms f have "serve_or_build e r c u resp evs0 = (out, c', evs)"
        by (auto simp: handler_def Let_def)
      from serve_or_build_shape [OF this] f show ?thesis by auto
    qed
  qed
qed

lemma gets_no_install: "list_all is_get evs \<Longrightarrow> filter is_install evs = []"
  by (induction evs) (auto simp: is_get_def is_install_def split: event.splits)

lemma handler_build_failure:
  assumes "url_path r \<noteq> ''/''"
    and "fetch e (target_url r) = Some (Ok (target_url r, resp), evs)"
    and "cache_key (sha256 e) (target_url r) = Some k"
    and "\<not> os_stat_ok e c (''.cache/'' @ k)"
    and "build_bundle e resp = (Fail st msg err, evs1)"
  shows "handler e r c =
           Some (Responded (Failed st) (sendError e new_writer msg err), c, evs @ evs1)"
  using assms by (simp add: handler_def serve_or_build_def Let_def)

lemma serveBundle_failed_cause:
  assumes "serveBundle e c w0 r h = (Failed st, w)"
  shows "st = CacheRead \<and> (\<exists>err. os_read_cache e c (''.cache/'' @ h) = Inl err
           \<and> w = sendError e w0 (''Failed to read from cache: '' @ err) err)"
  using assms by (auto simp: serveBundle_def Let_def split: sum.splits if_splits)

lemma serve_or_build_cause:
  assumes "serve_or_build e r c url resp evs = (Responded (Failed st) w, c', evs')"
  shows "\<exists>msg err. w = sendError e new_writer msg err \<and>
     ((\<exists>evs1. build_bundle e resp = (Fail st msg err, evs1))
      \<or> (\<exists>k b evs1 left. st = CacheWrite \<and> cache_key (sha256 e) url = Some k
            \<and> build_bundle e resp = (Ok b, evs1)
            \<and> write_fault e (''.cache/'' @ k) b = Some (err, left)
            \<and> msg = ''Failed to write to cache: '' @ err)
      \<or> (\<exists>k. st = CacheRead \<and> cache_key (sha256 e) url = Some k
            \<and> os_read_cache e c' (''.cache/'' @ k) = Inl err
            \<and> msg = ''Failed to read from cache: '' @ err))"
proof -
  let ?k = "take 20 (sprintf_x (digest_bytes (sha256 e url)))"
  let ?p = "''.cache/'' @ ?k"
  have k: "cache_key (sha256 e) url = Some ?k" by (rule cache_key_Some)
  show ?thesis
  proof (cases "os_stat_ok e c ?p")
    case True
    with assms have "respond (serveBundle e c new_writer r ?k) = Responded (Failed st) w"
      and c': "c' = c"
      by (auto simp: serve_or_build_def k Let_def)
    then have "serveBundle e c new_writer r ?k = (Failed st, w)"
      by (cases "serveBundle e c new_writer r ?k") (simp add: respond_def)
    from serveBundle_failed_cause [OF this] c' k show ?thesis by blast
  next
    case False
    obtain res evs1 where bb: "build_bundle e resp = (res, evs1)" by (cases "build_bundle e resp")
    show ?thesis
    proof (cases res)
      case Panic
      with bb build_bundle_no_panic show ?thesis by blast
    next
      case (Fail st' msg err)
      with False bb assms have "st' = st" and "w = sendError e new_writer msg err"
        by (auto simp: serve_or_build_def k Let_def)
      with Fail bb show ?thesis by blast
    next
      case (Ok b)
      show ?thesis
      proof (cases "write_fault e ?p b")
        case (Some x)
        obtain err left where x: "x = (err, left)" by (cases x)
        with Some False bb Ok assms
        have "st = CacheWrite"
          and "w = sendError e new_writer (''Failed to write to cache: '' @ err) err"
          by (auto simp: serve_or_build_def k Let_def os_write_cache_def)
        with Some x bb Ok k show ?thesis by blast
      next
        case None
        with False bb Ok assms
        have "respond (serveBundle e (c(?p \<mapsto> b)) new_writer r ?k) = Responded (Failed st) w"
          and c': "c' = c(?p \<mapsto> b)"
          by (auto simp: serve_or_build_def k Let_def os_write_cache_def)
        then have "serveBundle e c' new_writer r ?k = (Failed st, w)"
          by (cases "serveBundle e c' new_writer r ?k") (simp add: respond_def)
        from serveBundle_failed_cause [OF this] k show ?thesis by blast
      qed
    qed
  qed
qed

lemma handler_cause:
  assumes "handler e r c = Some (Responded (Failed st) w, c', evs)"
  shows "\<exists>msg err. w = sendError e new_writer msg err \<and>
     (fetch e (target_url r) = Some (Fail st msg err, evs)
      \<or> (\<exists>resp evs0 evs1. fetch e (target_url r) = Some (Ok (target_url r, resp), evs0)
            \<and> build_bundle e resp = (Fail st msg err, evs1))
      \<or> (\<exists>resp evs0 k b evs1 left. st = CacheWrite
            \<and> fetch e (target_url r) = Some (Ok (target_url r, resp), evs0)
            \<and> cache_key (sha256 e) (target_url r) = Some k
            \<and> build_bundle e resp = (Ok b, evs1)
            \<and> write_fault e (''.cache/'' @ k) b = Some (err, left)
            \<and> msg = ''Failed to write to cache: '' @ err)
      \<or> (\<exists>k. st = CacheRead \<and> cache_key (sha256 e) (target_url r) = Some k
            \<and> os_read_cache e c' (''.cache/'' @ k) = Inl err
            \<and> msg = ''Failed to read from cache: '' @ err))"
proof (cases "url_path r = ''/''")
  case True
  with assms show ?thesis by (simp add: handler_def Let_def)
next
  case False
  from assms False obtain res evs0 where f: "fetch e (target_url r) = Some (res, evs0)"
    by (auto simp: handler_def Let_def split: option.splits)
  show ?thesis
  proof (cases res)
    case Panic
    with assms False f show ?thesis by (simp add: handler_def Let_def)
  next
    case (Fail st' msg err)
    with assms False f have "st' = st" "w = sendError e new_writer msg err" "evs0 = evs"
      by (auto simp: handler_def Let_def)
    with Fail f show ?thesis by blast
  next
    case (Ok x)
    obtain u resp where x: "x = (u, resp)" by (cases x)
    show ?thesis
    proof (cases "u = target_url r")
      case neq: False
      with Ok x assms False f show ?thesis by (simp add: handler_def Let_def)
    next
      case True
      with Ok x assms False f
      have "serve_or_build e r c (target_url r) resp evs0 = (Responded (Failed st) w, c', evs)"
        by (simp add: handler_def Let_def)
      from serve_or_build_cause [OF this] Ok x True f show ?thesis by blast
    qed
  qed
qed

lemma serve_or_build_miss:
  assumes "cache_key (sha256 e) url = Some k" and "\<not> os_stat_ok e c (''.cache/'' @ k)"
  shows "\<exists>out c'. serve_or_build e r c url resp evs = (out, c', evs @ snd (build_bundle e resp))"
proof -
  obtain res evs1 where bb: "build_bundle e resp = (res, evs1)" by (cases "build_bundle e resp")
  show ?thesis
  proof (cases res)
    case Panic
    with bb assms show ?thesis by (simp add: serve_or_build_def Let_def)
  next
    case (Fail st msg err)
    with bb assms show ?thesis by (simp add: serve_or_build_def Let_def)
  next
    case (Ok b)
    obtain werr c1 where "os_write_cache e c (''.cache/'' @ k) b = (werr, c1)"
      by (cases "os_write_cache e c (''.cache/'' @ k) b")
    with Ok bb assms show ?thesis
      by (cases werr) (simp_all add: serve_or_build_def Let_def)
  qed
qed

lemma build_after_discovery:
  assumes "body_err resp = None"
    and "workspace e (body_data resp) = (Ok tmpDir, evs0)"
    and "discovery e tmpDir = (Ok missing, evs1)"
  shows "\<exists>res rest.
     build_bundle e resp =
       (res, Exec ''bunx'' depcheck_args tmpDir # Exec ''bun'' (install_args missing) tmpDir # rest)
     \<and> (rest = [] \<or> rest = [Build [tmpDir @ ''/src'', ''index.ts''] [tmpDir, ''dist'', ''bundle.js'']])
     \<and> (\<forall>code msg out.
           run_merged e ''bun'' (install_args missing) tmpDir = (Some (ExitError code msg), out) \<longrightarrow>
           res = Fail DependencyInstall (''bun install failed: '' @ out) msg \<and> rest = [])"
proof -
  from workspace_cases [OF assms(2)] have evs0: "evs0 = []" by simp
  from discovery_cases [OF assms(3)] have evs1: "evs1 = [Exec ''bunx'' depcheck_args tmpDir]"
    by simp
  have rb: "read_body resp = (Ok (body_data resp), [])"
    using assms(1) by (simp add: read_body_def)
  obtain r4 e4 where s4: "install e tmpDir missing = (r4, e4)" by (cases "install e tmpDir missing")
  from install_cases [OF s4] have e4: "e4 = [Exec ''bun'' (install_args missing) tmpDir]"
    and r4: "r4 = Ok () \<or> (\<exists>msg err. r4 = Fail DependencyInstall msg err)" by auto
  have failing: "r4 = Fail DependencyInstall (''bun install failed: '' @ out) msg"
    if "run_merged e ''bun'' (install_args missing) tmpDir = (Some (ExitError code msg), out)"
    for code msg out
    using that s4 by (simp add: install_def Let_def)
  from r4 show ?thesis
  proof
    assume "\<exists>msg err. r4 = Fail DependencyInstall msg err"
    then obtain msg err where f4: "r4 = Fail DependencyInstall msg err" by blast
    have "build_bundle e resp =
        (Fail DependencyInstall msg err,
         [Exec ''bunx'' depcheck_args tmpDir, Exec ''bun'' (install_args missing) tmpDir])"
      by (simp add: build_bundle_def rb assms(2,3) evs0 evs1 s4 e4 f4 and_then_Ok and_then_Fail)
    moreover have "msg = ''bun install failed: '' @ out \<and> err = m"
      if "run_merged e ''bun'' (install_args missing) tmpDir = (Some (ExitError code m), out)"
      for code m out
      using failing [OF that] f4 by simp
    ultimately show ?thesis by blast
  next
    assume ok4: "r4 = Ok ()"
    obtain r5 e5 where s5: "bundle_stage e tmpDir = (r5, e5)" by (cases "bundle_stage e tmpDir")
    from bundle_stage_cases [OF s5]
    have e5: "e5 = [Build [tmpDir @ ''/src'', ''index.ts''] [tmpDir, ''dist'', ''bundle.js'']]"
      by simp
    have "build_bundle e resp =
        (r5, [Exec ''bunx'' depcheck_args tmpDir, Exec ''bun'' (install_args missing) tmpDir,
              Build [tmpDir @ ''/src'', ''index.ts''] [tmpDir, ''dist'', ''bundle.js'']])"
      by (simp add: build_bundle_def rb assms(2,3) evs0 evs1 s4 e4 ok4 s5 e5 and_then_Ok)
    moreover have "\<not> run_merged e ''bun'' (install_args missing) tmpDir = (Some (ExitError code msg), out)"
      for code msg out
      using failing [of code msg out] ok4 by auto
    ultimately show ?thesis by blast
  qed
qed

subsection \<open>The example world, evaluated\<close>

lemma example_sha256: "sha256 example_env = example_sha"
  by (simp add: example_env_def)

lemma example_miss: "\<not> os_stat_ok e Map.empty p"
  by (simp add: os_stat_ok_def)

lemma example_target: "target_url (example_request (CHR ''/'' # u)) = u @ ''?''"
  by (simp add: target_url_def example_request_def trim_prefix_slash_def)

lemma example_path: "url_path (example_request p) = p"
  by (simp add: example_request_def)

lemma example_digest_27:
  "digest_bytes (example_sha ''https://example.com/mod.ts?'') =
     [0x1b, 0, 0, 0, 0, 0, 0, 0, 0, 0, 0, 0, 0, 0, 0, 0,
      0, 0, 0, 0, 0, 0, 0, 0, 0, 0, 0, 0, 0, 0, 0, 0xab]"
proof -
  have "example_sha ''https://example.com/mod.ts?'' =
          0x1b000000000000000000000000000000000000000000000000000000000000ab"
    by (simp add: example_sha_def)
  moreover have "digest_bytes 0x1b000000000000000000000000000000000000000000000000000000000000ab =
     [0x1b, 0, 0, 0, 0, 0, 0, 0, 0, 0, 0, 0, 0, 0, 0, 0,
      0, 0, 0, 0, 0, 0, 0, 0, 0, 0, 0, 0, 0, 0, 0, 0xab]"
    by code_simp
  ultimately show ?thesis by simp
qed

lemma example_digest_28:
  "digest_bytes (example_sha ''https://example.com/mod2.ts?'') =
     [0x1c, 0, 0, 0, 0, 0, 0, 0, 0, 0, 0, 0, 0, 0, 0, 0,
      0, 0, 0, 0, 0, 0, 0, 0, 0, 0, 0, 0, 0, 0, 0, 0xab]"
proof -
  have "example_sha ''https://example.com/mod2.ts?'' =
          0x1c000000000000000000000000000000000000000000000000000000000000ab"
    by (simp add: example_sha_def)
  moreover have "digest_bytes 0x1c000000000000000000000000000000000000000000000000000000000000ab =
     [0x1c, 0, 0, 0, 0, 0, 0, 0, 0, 0, 0, 0, 0, 0, 0, 0,
      0, 0, 0, 0, 0, 0, 0, 0, 0, 0, 0, 0, 0, 0, 0, 0xab]"
    by code_simp
  ultimately show ?thesis by simp
qed

lemma example_digest_17:
  "digest_bytes (example_sha ''export default 1;'') =
     [0x11, 0, 0, 0, 0, 0, 0, 0, 0, 0, 0, 0, 0, 0, 0, 0,
      0, 0, 0, 0, 0, 0, 0, 0, 0, 0, 0, 0, 0, 0, 0, 0xab]"
proof -
  have "example_sha ''export default 1;'' =
          0x11000000000000000000000000000000000000000000000000000000000000ab"
    by (simp add: example_sha_def)
  moreover have "digest_bytes 0x11000000000000000000000000000000000000000000000000000000000000ab =
     [0x11, 0, 0, 0, 0, 0, 0, 0, 0, 0, 0, 0, 0, 0, 0, 0,
      0, 0, 0, 0, 0, 0, 0, 0, 0, 0, 0, 0, 0, 0, 0, 0xab]"
    by code_simp
  ultimately show ?thesis by simp
qed

lemma example_key_mod2:
  "cache_key example_sha ''https://example.com/mod2.ts?'' = Some ''1c000000000000000000''"
  by (simp add: cache_key_def slice_to_def example_digest_28 sprintf_x_def hex_byte_def
      hex_digit_def)

lemma example_etag:
  "etag_of example_sha ''export default 1;'' = dquote ''11000000000000000000000000000000''"
  by (simp add: etag_of_def example_digest_17 sprintf_x_def hex_byte_def hex_digit_def
      dquote_def)

lemma example_fetch_mod2:
  "fetch example_env ''https://example.com/mod2.ts?'' =
     Some (Ok (''https://example.com/mod2.ts?'', found_ok ''export default 1;''),
           [HttpGet ''https://example.com/mod2.ts?''])"
proof -
  have "\<not> is_redirect (status_code (found_ok ''export default 1;''))"
    by (simp add: is_redirect_def found_ok_def)
  then have "follow_redirects example_env ''https://example.com/mod2.ts?''
               (found_ok ''export default 1;'') [HttpGet ''https://example.com/mod2.ts?''] =
             Some (Ok (''https://example.com/mod2.ts?'', found_ok ''export default 1;''),
                   [HttpGet ''https://example.com/mod2.ts?''])"
    by (rule follow_redirects_stop)
  moreover have "http_get example_env ''https://example.com/mod2.ts?'' =
      Inr (found_ok ''export default 1;'')"
    by (simp add: example_env_def example_web_def)
  moreover have "status_code (found_ok ''export default 1;'') = 200"
    by (simp add: found_ok_def)
  ultimately show ?thesis
    by (simp add: fetch_def and_then_def check_status_def)
qed

lemma example_workspace:
  "workspace example_env content = (Ok ''/tmp/vite-build-1'', [])"
  by (simp add: workspace_def example_env_def example_files_def and_then_def)

lemma example_discovery:
  "discovery example_env ''/tmp/vite-build-1'' =
     (Ok [(''left-pad'', [''src/index.ts''])],
      [Exec ''bunx'' depcheck_args ''/tmp/vite-build-1''])"
  by (simp add: discovery_def parse_depcheck_def example_env_def)

lemma example_install:
  "install example_env ''/tmp/vite-build-1'' [(''left-pad'', [''src/index.ts''])] =
     (Ok (), [Exec ''bun'' [''install'', ''--save'', ''left-pad''] ''/tmp/vite-build-1''])"
  by (simp add: install_def install_args_def example_env_def)

lemma example_bundle_stage:
  "bundle_stage example_env ''/tmp/vite-build-1'' =
     (Ok ''export default 1;'',
      [Build [''/tmp/vite-build-1/src'', ''index.ts''] [''/tmp/vite-build-1'', ''dist'', ''bundle.js'']])"
  by (simp add: bundle_stage_def example_env_def example_files_def)

lemma example_build_bundle:
  "build_bundle example_env (found_ok ''export default 1;'') =
     (Ok ''export default 1;'',
      [Exec ''bunx'' depcheck_args ''/tmp/vite-build-1'',
       Exec ''bun'' [''install'', ''--save'', ''left-pad''] ''/tmp/vite-build-1'',
       Build [''/tmp/vite-build-1/src'', ''index.ts''] [''/tmp/vite-build-1'', ''dist'', ''bundle.js'']])"
proof -
  have "read_body (found_ok ''export default 1;'') = (Ok ''export default 1;'', [])"
    by (simp add: read_body_def found_ok_def)
  then show ?thesis
    by (simp add: build_bundle_def and_then_Ok example_workspace example_discovery
        example_install example_bundle_stage)
qed

lemma example_serve:
  "serveBundle example_env [''.cache/1c000000000000000000'' \<mapsto> ''export default 1;''] new_writer
     (example_request ''/https://example.com/mod2.ts'') ''1c000000000000000000'' =
     (Served,
      \<lparr>rw_header = [''Access-Control-Allow-Origin'' \<mapsto> ''*'',
                    ''Content-Type'' \<mapsto> ''application/javascript'',
                    ''ETag'' \<mapsto> dquote ''11000000000000000000000000000000'',
                    ''Cache-Control'' \<mapsto> ''public, max-age=31536000'',
                    ''Content-Length'' \<mapsto> ''17''],
       rw_status = Some 200, rw_body = ''export default 1;''\<rparr>)"
proof -
  let ?r = "example_request ''/https://example.com/mod2.ts''"
  let ?c = "[''.cache/1c000000000000000000'' \<mapsto> ''export default 1;'']"
  have rd: "os_read_cache example_env ?c (''.cache/'' @ ''1c000000000000000000'') =
      Inr ''export default 1;''"
    by (simp add: os_read_cache_def example_env_def)
  have len: "sprintf_d (length ''export default 1;'') = ''17''"
    by (simp add: sprintf_d.simps dec_digit_def)
  have absent: "header_get ?r ''If-None-Match'' \<noteq> dquote ''11000000000000000000000000000000''"
    by (simp add: header_get_def example_request_def dquote_def)
  from serveBundle_ok [OF rd, of ?r, unfolded example_sha256 example_etag len] absent
  show ?thesis by (simp only: if_False)
qed

lemma example_build_success:
  "handler example_env (example_request ''/https://example.com/mod2.ts'') Map.empty =
     Some (Responded Served
             \<lparr>rw_header = [''Access-Control-Allow-Origin'' \<mapsto> ''*'',
                           ''Content-Type'' \<mapsto> ''application/javascript'',
                           ''ETag'' \<mapsto> dquote ''11000000000000000000000000000000'',
                           ''Cache-Control'' \<mapsto> ''public, max-age=31536000'',
                           ''Content-Length'' \<mapsto> ''17''],
              rw_status = Some 200, rw_body = ''export default 1;''\<rparr>,
           [''.cache/1c000000000000000000'' \<mapsto> ''export default 1;''],
           [HttpGet ''https://example.com/mod2.ts?'',
            Exec ''bunx'' depcheck_args ''/tmp/vite-build-1'',
            Exec ''bun'' [''install'', ''--save'', ''left-pad''] ''/tmp/vite-build-1'',
            Build [''/tmp/vite-build-1/src'', ''index.ts'']
              [''/tmp/vite-build-1'', ''dist'', ''bundle.js'']])"
proof -
  let ?r = "example_request ''/https://example.com/mod2.ts''"
  let ?c = "[''.cache/1c000000000000000000'' \<mapsto> ''export default 1;'']"
  have wr: "os_write_cache example_env Map.empty ''.cache/1c000000000000000000''
      ''export default 1;'' = (None, ?c)"
    by (simp add: os_write_cache_def example_env_def)
  have "serve_or_build example_env ?r Map.empty ''https://example.com/mod2.ts?''
      (found_ok ''export default 1;'') [HttpGet ''https://example.com/mod2.ts?''] =
    (Responded Served
             \<lparr>rw_header = [''Access-Control-Allow-Origin'' \<mapsto> ''*'',
                           ''Content-Type'' \<mapsto> ''application/javascript'',
                           ''ETag'' \<mapsto> dquote ''11000000000000000000000000000000'',
                           ''Cache-Control'' \<mapsto> ''public, max-age=31536000'',
                           ''Content-Length'' \<mapsto> ''17''],
              rw_status = Some 200, rw_body = ''export default 1;''\<rparr>,
           ?c,
           [HttpGet ''https://example.com/mod2.ts?'',
            Exec ''bunx'' depcheck_args ''/tmp/vite-build-1'',
            Exec ''bun'' [''install'', ''--save'', ''left-pad''] ''/tmp/vite-build-1'',
            Build [''/tmp/vite-build-1/src'', ''index.ts'']
              [''/tmp/vite-build-1'', ''dist'', ''bundle.js'']])"
    by (simp add: serve_or_build_def example_sha256 example_key_mod2 example_miss
        example_build_bundle wr example_serve respond_def)
  then show ?thesis
    by (simp add: handler_def example_path example_target example_fetch_mod2)
qed

lemma failing_build_bundle:
  "build_bundle failing_build_env (found_ok ''export default 1;'') =
     (Fail Bundling ''Build failed'' ''build failed: Unexpected token errors'',
      [Exec ''bunx'' depcheck_args ''/tmp/vite-build-1'',
       Exec ''bun'' [''install'', ''--save'', ''left-pad''] ''/tmp/vite-build-1'',
       Build [''/tmp/vite-build-1/src'', ''index.ts''] [''/tmp/vite-build-1'', ''dist'', ''bundle.js'']])"
proof -
  have rb: "read_body (found_ok ''export default 1;'') = (Ok ''export default 1;'', [])"
    by (simp add: read_body_def found_ok_def)
  have ws: "workspace failing_build_env ''export default 1;'' = (Ok ''/tmp/vite-build-1'', [])"
    by (simp add: workspace_def failing_build_env_def example_env_def example_files_def
        and_then_def)
  have dc: "discovery failing_build_env ''/tmp/vite-build-1'' =
     (Ok [(''left-pad'', [''src/index.ts''])],
      [Exec ''bunx'' depcheck_args ''/tmp/vite-build-1''])"
    by (simp add: discovery_def parse_depcheck_def failing_build_env_def example_env_def)
  have ins: "install failing_build_env ''/tmp/vite-build-1'' [(''left-pad'', [''src/index.ts''])] =
     (Ok (), [Exec ''bun'' [''install'', ''--save'', ''left-pad''] ''/tmp/vite-build-1''])"
    by (simp add: install_def install_args_def failing_build_env_def example_env_def)
  have bs: "bundle_stage failing_build_env ''/tmp/vite-build-1'' =
     (Fail Bundling ''Build failed'' ''build failed: Unexpected token errors'',
      [Build [''/tmp/vite-build-1/src'', ''index.ts''] [''/tmp/vite-build-1'', ''dist'', ''bundle.js'']])"
    by (simp add: bundle_stage_def failing_build_env_def example_env_def)
  show ?thesis
    by (simp add: build_bundle_def and_then_Ok rb ws dc ins bs)
qed

lemma example_build_failure:
  "handler failing_build_env (example_request ''/https://example.com/mod2.ts'')
     [''.cache/1b000000000000000000'' \<mapsto> ''old''] =
     Some (Responded (Failed Bundling)
             \<lparr>rw_header = [''Content-Type'' \<mapsto> ''application/javascript''],
              rw_status = Some 200,
              rw_body = ''console.error('' @ dquote ''Build failed'' @ '');console.error(''
                 @ dquote ''build failed: Unexpected token errors'' @ '')''\<rparr>,
           [''.cache/1b000000000000000000'' \<mapsto> ''old''],
           [HttpGet ''https://example.com/mod2.ts?'',
            Exec ''bunx'' depcheck_args ''/tmp/vite-build-1'',
            Exec ''bun'' [''install'', ''--save'', ''left-pad''] ''/tmp/vite-build-1'',
            Build [''/tmp/vite-build-1/src'', ''index.ts'']
              [''/tmp/vite-build-1'', ''dist'', ''bundle.js'']])"
proof -
  let ?r = "example_request ''/https://example.com/mod2.ts''"
  have p: "url_path ?r \<noteq> ''/''" by (simp add: example_path)
  have t: "target_url ?r = ''https://example.com/mod2.ts?''" by (simp add: example_target)
  have get: "http_get failing_build_env ''https://example.com/mod2.ts?'' =
      Inr (found_ok ''export default 1;'')"
    by (simp add: failing_build_env_def example_env_def example_web_def)
  have f: "fetch failing_build_env (target_url ?r) =
      Some (Ok (target_url ?r, found_ok ''export default 1;''),
            [HttpGet ''https://example.com/mod2.ts?''])"
    unfolding t by (rule fetch_direct [OF get]) (simp add: found_ok_def)
  have k: "cache_key (sha256 failing_build_env) (target_url ?r) = Some ''1c000000000000000000''"
    by (simp add: t failing_build_env_def example_sha256 example_key_mod2)
  have miss: "\<not> os_stat_ok failing_build_env [''.cache/1b000000000000000000'' \<mapsto> ''old'']
      (''.cache/'' @ ''1c000000000000000000'')"
    by (simp add: os_stat_ok_def)
  from handler_build_failure [OF p f k miss failing_build_bundle]
  show ?thesis
    by (simp add: sendError_new failing_build_env_def example_env_def)
qed

lemma example_reach:
  assumes "http_get e = example_web" and "sha256 e = example_sha"
  shows "fetch e (target_url (example_request ''/https://example.com/mod2.ts'')) =
      Some (Ok (target_url (example_request ''/https://example.com/mod2.ts''),
                found_ok ''export default 1;''),
            [HttpGet ''https://example.com/mod2.ts?''])"
    and "cache_key (sha256 e) (target_url (example_request ''/https://example.com/mod2.ts'')) =
      Some ''1c000000000000000000''"
proof -
  have t: "target_url (example_request ''/https://example.com/mod2.ts'') =
      ''https://example.com/mod2.ts?''"
    by (simp add: example_target)
  have get: "http_get e ''https://example.com/mod2.ts?'' = Inr (found_ok ''export default 1;'')"
    by (simp add: assms(1) example_web_def)
  show "fetch e (target_url (example_request ''/https://example.com/mod2.ts'')) =
      Some (Ok (target_url (example_request ''/https://example.com/mod2.ts''),
                found_ok ''export default 1;''),
            [HttpGet ''https://example.com/mod2.ts?''])"
    unfolding t by (rule fetch_direct [OF get]) (simp add: found_ok_def)
  show "cache_key (sha256 e) (target_url (example_request ''/https://example.com/mod2.ts'')) =
      Some ''1c000000000000000000''"
    by (simp add: t assms(2) example_key_mod2)
qed


section \<open>The claims\<close>

subsection \<open>The cache key\<close>

text \<open>
  Claim C1. The cache key of a canonical URL is the first 20 characters of the
  hexadecimal text of the URL's SHA-256 digest: the slice is always in range (the handler
  never panics there), the key has exactly 20 characters, all of them hexadecimal digits,
  and every computation over the same URL gives the same key.
\<close>

theorem cache_key_fixed_length:
  "\<exists>k. cache_key sha url = Some k \<and> length k = 20 \<and> list_all is_hex_char k
       \<and> k = take 20 (sprintf_x (digest_bytes (sha url)))
       \<and> (\<forall>url'. url' = url \<longrightarrow> cache_key sha url' = Some k)"
  by (simp add: cache_key_Some length_sprintf_x length_digest_bytes
      sprintf_x_is_hex list_all_take)

theorem cache_key_fixed_length_witness:
  "cache_key example_sha ''https://example.com/mod.ts?'' = Some ''1b000000000000000000''
   \<and> length ''1b000000000000000000'' = 20"
proof -
  have k: "cache_key example_sha ''https://example.com/mod.ts?'' = Some ''1b000000000000000000''"
    by (simp add: cache_key_def slice_to_def example_digest_27 sprintf_x_def hex_byte_def
        hex_digit_def)
  from cache_key_fixed_length [of example_sha "''https://example.com/mod.ts?''"]
  obtain k' where "cache_key example_sha ''https://example.com/mod.ts?'' = Some k'"
    and "length k' = 20"
    by blast
  with k show ?thesis by simp
qed

subsection \<open>The redirect loop\<close>

text \<open>
  Claim C2. The loop goes on exactly while the status is 301, 302, 303 or 307: along a
  chain of redirects of any length it requests each \<^verbatim>\<open>Location\<close> in turn and returns the
  last URL and the last response as soon as the status is another one; when that status is
  200, the URL the fetcher returns is the last URL of the chain. There is no bound on the
  number of hops: a URL that redirects to itself keeps the loop, and with it the fetcher,
  from ever returning.
\<close>

theorem redirect_loop_chain:
  "(redirect_chain e resp hops \<longrightarrow>
      status_code (last (resp # map snd hops)) \<notin> {301, 302, 303, 307} \<longrightarrow>
      follow_redirects e url resp evs =
        Some (Ok (last (url # map fst hops), last (resp # map snd hops)),
              evs @ map (HttpGet \<circ> fst) hops))
   \<and> (http_get e url = Inr resp \<longrightarrow> redirect_chain e resp hops \<longrightarrow>
        status_code (last (resp # map snd hops)) = 200 \<longrightarrow>
        fetch e url =
          Some (Ok (last (url # map fst hops), last (resp # map snd hops)),
                HttpGet url # map (HttpGet \<circ> fst) hops))
   \<and> (http_get e url = Inr resp \<longrightarrow> status_code resp \<in> {301, 302, 303, 307} \<longrightarrow>
        location resp = Some url \<longrightarrow>
        follow_redirects e url resp evs = None \<and> fetch e url = None)"
proof -
  have loop: "follow_redirects e url resp evs =
           Some (Ok (last (url # map fst hops), last (resp # map snd hops)),
                 evs @ map (HttpGet \<circ> fst) hops)"
    if "redirect_chain e resp hops"
      and "status_code (last (resp # map snd hops)) \<notin> {301, 302, 303, 307}" for evs
  proof -
    from that(2) have "\<not> is_redirect (status_code (last (resp # map snd hops)))"
      by (simp add: is_redirect_iff)
    with that(1) show ?thesis by (rule follow_redirects_chain)
  qed
  have fetched: "fetch e url =
          Some (Ok (last (url # map fst hops), last (resp # map snd hops)),
                HttpGet url # map (HttpGet \<circ> fst) hops)"
    if "http_get e url = Inr resp" "redirect_chain e resp hops"
      "status_code (last (resp # map snd hops)) = 200"
  proof -
    from that(3) have "status_code (last (resp # map snd hops)) \<notin> {301, 302, 303, 307}"
      by simp
    from loop [OF that(2) this] that(1,3) show ?thesis
      by (simp add: fetch_def and_then_def check_status_def)
  qed
  have forever: "follow_redirects e url resp evs = None \<and> fetch e url = None"
    if "http_get e url = Inr resp" "status_code resp \<in> {301, 302, 303, 307}"
      "location resp = Some url"
  proof -
    from that(2) have red: "is_redirect (status_code resp)" by (simp add: is_redirect_iff)
    have "follow_redirects e url resp evs' = None" for evs'
      using that(1) red that(3) by (rule follow_redirects_self_loop)
    with that(1) show ?thesis by (simp add: fetch_def)
  qed
  from loop fetched forever show ?thesis by blast
qed

theorem redirect_loop_chain_witness:
  "fetch example_env ''https://a.example/x?'' =
     Some (Ok (''https://c.example/z'', found_ok ''export{};''),
           [HttpGet ''https://a.example/x?'', HttpGet ''https://b.example/y'',
            HttpGet ''https://c.example/z''])
   \<and> fetch example_env ''https://example.com/loop'' = None"
proof -
  let ?a = "moved 301 ''301 Moved Permanently'' ''https://b.example/y''"
  let ?hops = "[(''https://b.example/y'', moved 307 ''307 Temporary Redirect'' ''https://c.example/z''),
                (''https://c.example/z'', found_ok ''export{};'')]"
  let ?l = "moved 302 ''302 Found'' ''https://example.com/loop''"
  have get: "http_get example_env ''https://a.example/x?'' = Inr ?a"
    by (simp add: example_env_def example_web_def)
  have chain: "redirect_chain example_env ?a ?hops"
    by (simp add: example_env_def example_web_def moved_def)
  have ok: "status_code (last (?a # map snd ?hops)) = 200"
    by (simp add: found_ok_def)
  have get_l: "http_get example_env ''https://example.com/loop'' = Inr ?l"
    by (simp add: example_env_def example_web_def)
  have red_l: "status_code ?l \<in> {301, 302, 303, 307}" by (simp add: moved_def)
  have loc_l: "location ?l = Some ''https://example.com/loop''" by (simp add: moved_def)
  from redirect_loop_chain [of example_env ?a ?hops "''https://a.example/x?''" "[]"]
    get chain ok
  have "fetch example_env ''https://a.example/x?'' =
     Some (Ok (''https://c.example/z'', found_ok ''export{};''),
           [HttpGet ''https://a.example/x?'', HttpGet ''https://b.example/y'',
            HttpGet ''https://c.example/z''])"
    by simp
  moreover from redirect_loop_chain [of example_env ?l "[]" "''https://example.com/loop''" "[]"]
    get_l red_l loc_l
  have "fetch example_env ''https://example.com/loop'' = None" by blast
  ultimately show ?thesis by simp
qed

text \<open>
  Claim C9. The error of \<^verbatim>\<open>resp.Location()\<close> is dropped: when the first response has
  a redirect status and no usable \<^verbatim>\<open>Location\<close>, the URL is \<^verbatim>\<open>nil\<close> and the handler
  panics right after its first request, with nothing written to the cache.
\<close>

theorem nil_location_panics:
  assumes "url_path r \<noteq> ''/''"
    and "http_get e (target_url r) = Inr resp"
    and "status_code resp \<in> {301, 302, 303, 307}"
    and "location resp = None"
  shows "handler e r c = Some (Panicked, c, [HttpGet (target_url r)])"
proof -
  from assms(3) have "is_redirect (status_code resp)" by (simp add: is_redirect_iff)
  then have "follow_redirects e (target_url r) resp [HttpGet (target_url r)] =
      Some (Panic, [HttpGet (target_url r)])"
    using assms(4) by (rule follow_redirects_nil)
  then have "fetch e (target_url r) = Some (Panic, [HttpGet (target_url r)])"
    using assms(2) by (simp add: fetch_def and_then_def)
  with assms(1) show ?thesis by (simp add: handler_def Let_def)
qed

theorem nil_location_panics_witness:
  "handler example_env (example_request ''/https://example.com/noloc'') Map.empty =
     Some (Panicked, Map.empty, [HttpGet ''https://example.com/noloc?''])"
proof -
  let ?r = "example_request ''/https://example.com/noloc''"
  let ?resp = "\<lparr>status_code = 302, status_text = ''302 Found'', location = None,
                  body_data = [], body_err = None\<rparr>"
  have t: "target_url ?r = ''https://example.com/noloc?''"
    by (simp add: example_target)
  have p: "url_path ?r \<noteq> ''/''" by (simp add: example_path)
  have get: "http_get example_env (target_url ?r) = Inr ?resp"
    by (simp add: t example_env_def example_web_def)
  have st: "status_code ?resp \<in> {301, 302, 303, 307}" by simp
  have loc: "location ?resp = None" by simp
  from nil_location_panics [OF p get st loc, of Map.empty] show ?thesis by (simp add: t)
qed

subsection \<open>The redirect to the canonical URL\<close>

text \<open>
  Claim C3, as stated, fails where the redirects end in a response whose status is not
  200: the status is checked before the URLs are compared, so the request for
  \<^verbatim>\<open>gone.ts\<close>, which moves to \<^verbatim>\<open>gone2.ts\<close>, which is not found, ends in the error
  response and not in a 302, although the URL reached differs from the one requested.
\<close>

theorem redirect_to_canonical_counterexample:
  "follow_redirects example_env ''https://example.com/gone.ts?''
     (moved 301 ''301 Moved Permanently'' ''https://example.com/gone2.ts'')
     [HttpGet ''https://example.com/gone.ts?''] =
     Some (Ok (''https://example.com/gone2.ts'',
               \<lparr>status_code = 404, status_text = ''404 Not Found'', location = None,
                body_data = ''not found'', body_err = None\<rparr>),
           [HttpGet ''https://example.com/gone.ts?'', HttpGet ''https://example.com/gone2.ts''])
   \<and> ''https://example.com/gone2.ts'' \<noteq> target_url (example_request ''/https://example.com/gone.ts'')
   \<and> handler example_env (example_request ''/https://example.com/gone.ts'') Map.empty =
       Some (Responded (Failed UpstreamStatus)
               \<lparr>rw_header = [''Content-Type'' \<mapsto> ''application/javascript''],
                rw_status = Some 200,
                rw_body = ''console.error('' @ dquote ''Failed to fetch URL: 404 Not Found''
                   @ '');console.error('' @ dquote ''status not found'' @ '')''\<rparr>,
             Map.empty,
             [HttpGet ''https://example.com/gone.ts?'', HttpGet ''https://example.com/gone2.ts''])"
proof -
  let ?r = "example_request ''/https://example.com/gone.ts''"
  let ?gone = "\<lparr>status_code = 404, status_text = ''404 Not Found'', location = None,
                body_data = ''not found'', body_err = None\<rparr>"
  have t: "target_url ?r = ''https://example.com/gone.ts?''"
    by (simp add: example_target)
  have p: "url_path ?r \<noteq> ''/''" by (simp add: example_path)
  have chain: "redirect_chain example_env
      (moved 301 ''301 Moved Permanently'' ''https://example.com/gone2.ts'')
      [(''https://example.com/gone2.ts'', ?gone)]"
    by (simp add: example_env_def example_web_def moved_def)
  have stop: "\<not> is_redirect (status_code (last
      (moved 301 ''301 Moved Permanently'' ''https://example.com/gone2.ts''
        # map snd [(''https://example.com/gone2.ts'', ?gone)])))"
    by (simp add: is_redirect_def)
  have get: "http_get example_env ''https://example.com/gone.ts?'' =
      Inr (moved 301 ''301 Moved Permanently'' ''https://example.com/gone2.ts'')"
    by (simp add: example_env_def example_web_def)
  have status: "errorf_status example_env ''not found'' = ''status not found''"
    and enc: "json_marshal example_env = dquote" "quote example_env = dquote"
    by (simp_all add: example_env_def)
  have loop: "follow_redirects example_env ''https://example.com/gone.ts?''
     (moved 301 ''301 Moved Permanently'' ''https://example.com/gone2.ts'')
     [HttpGet ''https://example.com/gone.ts?''] =
     Some (Ok (''https://example.com/gone2.ts'', ?gone),
           [HttpGet ''https://example.com/gone.ts?'', HttpGet ''https://example.com/gone2.ts''])"
    by (simp add: follow_redirects_chain [OF chain stop])
  have f: "fetch example_env ''https://example.com/gone.ts?'' =
      Some (Fail UpstreamStatus ''Failed to fetch URL: 404 Not Found'' ''status not found'',
            [HttpGet ''https://example.com/gone.ts?'', HttpGet ''https://example.com/gone2.ts''])"
    by (simp add: fetch_def get loop and_then_def check_status_def status)
  have "handler example_env ?r Map.empty =
       Some (Responded (Failed UpstreamStatus)
               \<lparr>rw_header = [''Content-Type'' \<mapsto> ''application/javascript''],
                rw_status = Some 200,
                rw_body = ''console.error('' @ dquote ''Failed to fetch URL: 404 Not Found''
                   @ '');console.error('' @ dquote ''status not found'' @ '')''\<rparr>,
             Map.empty,
             [HttpGet ''https://example.com/gone.ts?'', HttpGet ''https://example.com/gone2.ts''])"
    using p by (simp add: handler_def t f sendError_new enc)
  with loop t show ?thesis by simp
qed

text \<open>
  Claim C3, amended. When the redirect loop ends at a canonical URL that differs from
  the requested one and the last response has status 200, the handler answers 302 with
  \<^verbatim>\<open>Location\<close> set to a slash followed by the canonical URL and an empty body; it
  leaves the cache as it was, and its only events are requests to the network: no tool
  and no bundling engine has run.
\<close>

theorem redirect_to_canonical:
  assumes "url_path r \<noteq> ''/''"
    and "http_get e (target_url r) = Inr first"
    and "follow_redirects e (target_url r) first [HttpGet (target_url r)] =
           Some (Ok (canonical, resp), evs)"
    and "status_code resp = 200"
    and "canonical \<noteq> target_url r"
  shows "handler e r c =
           Some (Responded Redirected
                   \<lparr>rw_header = [''Location'' \<mapsto> ''/'' @ canonical],
                    rw_status = Some 302, rw_body = []\<rparr>,
                 c, evs)
       \<and> list_all is_get evs"
proof -
  have f: "fetch e (target_url r) = Some (Ok (canonical, resp), evs)"
    using assms(2-4) by (simp add: fetch_def and_then_def check_status_def)
  have "handler e r c =
           Some (Responded Redirected
                   \<lparr>rw_header = [''Location'' \<mapsto> ''/'' @ canonical],
                    rw_status = Some 302, rw_body = []\<rparr>,
                 c, evs)"
    using assms(1,5) f
    by (simp add: handler_def Let_def new_writer_def header_set_def write_header_def)
  moreover have "list_all is_get evs" using f by (rule fetch_gets)
  ultimately show ?thesis by blast
qed

theorem redirect_to_canonical_witness:
  "handler example_env (example_request ''/https://example.com/mod.ts'') Map.empty =
     Some (Responded Redirected
             \<lparr>rw_header = [''Location'' \<mapsto> ''/https://example.com/mod2.ts''],
              rw_status = Some 302, rw_body = []\<rparr>,
           Map.empty,
           [HttpGet ''https://example.com/mod.ts?'', HttpGet ''https://example.com/mod2.ts''])"
proof -
  let ?r = "example_request ''/https://example.com/mod.ts''"
  let ?first = "moved 301 ''301 Moved Permanently'' ''https://example.com/mod2.ts''"
  have t: "target_url ?r = ''https://example.com/mod.ts?''"
    by (simp add: example_target)
  have chain: "redirect_chain example_env ?first
      [(''https://example.com/mod2.ts'', found_ok ''export default 1;'')]"
    by (simp add: example_env_def example_web_def moved_def)
  have stop: "\<not> is_redirect (status_code (last
      (?first # map snd [(''https://example.com/mod2.ts'', found_ok ''export default 1;'')])))"
    by (simp add: found_ok_def is_redirect_def)
  have get: "http_get example_env (target_url ?r) = Inr ?first"
    by (simp add: t example_env_def example_web_def)
  have loop: "follow_redirects example_env (target_url ?r) ?first [HttpGet (target_url ?r)] =
      Some (Ok (''https://example.com/mod2.ts'', found_ok ''export default 1;''),
            [HttpGet ''https://example.com/mod.ts?'', HttpGet ''https://example.com/mod2.ts''])"
    by (simp add: t follow_redirects_chain [OF chain stop])
  have ok: "status_code (found_ok ''export default 1;'') = 200" by (simp add: found_ok_def)
  have p: "url_path ?r \<noteq> ''/''" by (simp add: example_path)
  have neq: "''https://example.com/mod2.ts'' \<noteq> target_url ?r" by (simp add: t)
  from redirect_to_canonical [OF p get loop ok neq, of Map.empty] show ?thesis by simp
qed

text \<open>
  Claim C10. For a path other than \<^verbatim>\<open>/\<close> the URL is the path without its leading
  slash, a question mark and the raw query, whatever the query is. With an empty query the
  URL ends in the question mark; this is the URL of the handler's first request, the URL
  that is compared with the canonical one, and the URL whose hash names the cache entry.
\<close>

theorem target_url_query:
  assumes "url_path r \<noteq> ''/''"
  shows "target_url r = trim_prefix_slash (url_path r) @ ''?'' @ raw_query r
       \<and> (raw_query r = [] \<longrightarrow> target_url r = trim_prefix_slash (url_path r) @ ''?'')
       \<and> (\<forall>out c' evs. handler e r c = Some (out, c', evs) \<longrightarrow>
             (\<exists>rest. evs = HttpGet (trim_prefix_slash (url_path r) @ ''?'' @ raw_query r) # rest))
       \<and> (\<forall>u resp evs. fetch e (target_url r) = Some (Ok (u, resp), evs) \<longrightarrow>
             u \<noteq> trim_prefix_slash (url_path r) @ ''?'' @ raw_query r \<longrightarrow>
             handler e r c =
               Some (Responded Redirected
                   \<lparr>rw_header = [''Location'' \<mapsto> ''/'' @ u],
                    rw_status = Some 302, rw_body = []\<rparr>, c, evs))
       \<and> (\<forall>resp evs k.
             fetch e (target_url r) =
               Some (Ok (trim_prefix_slash (url_path r) @ ''?'' @ raw_query r, resp), evs) \<longrightarrow>
             cache_key (sha256 e) (trim_prefix_slash (url_path r) @ ''?'' @ raw_query r) = Some k \<longrightarrow>
             os_stat_ok e c (''.cache/'' @ k) \<longrightarrow>
             handler e r c = Some (respond (serveBundle e c new_writer r k), c, evs))"
proof -
  have t: "target_url r = trim_prefix_slash (url_path r) @ ''?'' @ raw_query r"
    by (simp add: target_url_def)
  have first: "\<exists>rest. evs = HttpGet (trim_prefix_slash (url_path r) @ ''?'' @ raw_query r) # rest"
    if h: "handler e r c = Some (out, c', evs)" for out c' evs
  proof -
    from handler_fetch [OF assms h] obtain res evs0 evs1
      where f: "fetch e (target_url r) = Some (res, evs0)" and evs: "evs = evs0 @ evs1"
      by blast
    from fetch_result [OF f] obtain rest where "evs0 = HttpGet (target_url r) # rest" by blast
    with evs t show ?thesis by simp
  qed
  have redirect: "handler e r c =
               Some (Responded Redirected
                   \<lparr>rw_header = [''Location'' \<mapsto> ''/'' @ u],
                    rw_status = Some 302, rw_body = []\<rparr>, c, evs)"
    if "fetch e (target_url r) = Some (Ok (u, resp), evs)"
      and "u \<noteq> trim_prefix_slash (url_path r) @ ''?'' @ raw_query r" for u resp evs
    using that assms t
    by (simp add: handler_def Let_def new_writer_def header_set_def write_header_def)
  have hit: "handler e r c = Some (respond (serveBundle e c new_writer r k), c, evs)"
    if "fetch e (target_url r) =
               Some (Ok (trim_prefix_slash (url_path r) @ ''?'' @ raw_query r, resp), evs)"
      and "cache_key (sha256 e) (trim_prefix_slash (url_path r) @ ''?'' @ raw_query r) = Some k"
      and "os_stat_ok e c (''.cache/'' @ k)" for resp evs k
    using that assms t by (simp add: handler_def serve_or_build_def Let_def)
  from t first redirect hit show ?thesis by simp
qed

theorem target_url_query_witness:
  "handler example_env (example_request ''/https://example.com/self.ts'') Map.empty =
     Some (Responded Redirected
             \<lparr>rw_header = [''Location'' \<mapsto> ''/https://example.com/self.ts''],
              rw_status = Some 302, rw_body = []\<rparr>,
           Map.empty,
           [HttpGet ''https://example.com/self.ts?'', HttpGet ''https://example.com/self.ts''])
   \<and> handler example_env (example_request ''/https://example.com/mod2.ts'')
         [''.cache/1c000000000000000000'' \<mapsto> ''export default 1;''] =
       Some (Responded Served
               \<lparr>rw_header = [''Access-Control-Allow-Origin'' \<mapsto> ''*'',
                             ''Content-Type'' \<mapsto> ''application/javascript'',
                             ''ETag'' \<mapsto> dquote ''11000000000000000000000000000000'',
                             ''Cache-Control'' \<mapsto> ''public, max-age=31536000'',
                             ''Content-Length'' \<mapsto> ''17''],
                rw_status = Some 200, rw_body = ''export default 1;''\<rparr>,
             [''.cache/1c000000000000000000'' \<mapsto> ''export default 1;''],
             [HttpGet ''https://example.com/mod2.ts?''])"
proof -
  let ?s = "example_request ''/https://example.com/self.ts''"
  let ?m = "example_request ''/https://example.com/mod2.ts''"
  let ?c = "[''.cache/1c000000000000000000'' \<mapsto> ''export default 1;'']"
  have ps: "url_path ?s \<noteq> ''/''" and pm: "url_path ?m \<noteq> ''/''"
    by (simp_all add: example_path)
  have qs: "raw_query ?s = []" and qm: "raw_query ?m = []"
    by (simp_all add: example_request_def)
  have ts: "trim_prefix_slash (url_path ?s) = ''https://example.com/self.ts''"
    and tm: "trim_prefix_slash (url_path ?m) = ''https://example.com/mod2.ts''"
    by (simp_all add: example_path trim_prefix_slash_def)
  have chain: "redirect_chain example_env
      (moved 301 ''301 Moved Permanently'' ''https://example.com/self.ts'')
      [(''https://example.com/self.ts'', found_ok ''export{};'')]"
    by (simp add: example_env_def example_web_def moved_def)
  have stop: "\<not> is_redirect (status_code (last
      (moved 301 ''301 Moved Permanently'' ''https://example.com/self.ts''
        # map snd [(''https://example.com/self.ts'', found_ok ''export{};'')])))"
    by (simp add: found_ok_def is_redirect_def)
  have get: "http_get example_env ''https://example.com/self.ts?'' =
      Inr (moved 301 ''301 Moved Permanently'' ''https://example.com/self.ts'')"
    by (simp add: example_env_def example_web_def)
  have fs: "fetch example_env (target_url ?s) =
      Some (Ok (''https://example.com/self.ts'', found_ok ''export{};''),
            [HttpGet ''https://example.com/self.ts?'', HttpGet ''https://example.com/self.ts''])"
    by (simp add: example_target fetch_def get follow_redirects_chain [OF chain stop]
        and_then_def check_status_def found_ok_def)
  have fm: "fetch example_env (target_url ?m) =
      Some (Ok (trim_prefix_slash (url_path ?m) @ ''?'' @ raw_query ?m,
                found_ok ''export default 1;''),
            [HttpGet ''https://example.com/mod2.ts?''])"
    by (simp add: example_target example_fetch_mod2 tm qm)
  have km: "cache_key (sha256 example_env) (trim_prefix_slash (url_path ?m) @ ''?'' @ raw_query ?m) =
      Some ''1c000000000000000000''"
    by (simp add: tm qm example_sha256 example_key_mod2)
  have hit: "os_stat_ok example_env ?c (''.cache/'' @ ''1c000000000000000000'')"
    by (simp add: os_stat_ok_def example_env_def)
  from target_url_query [OF ps, of example_env Map.empty] fs
  have "handler example_env ?s Map.empty =
     Some (Responded Redirected
             \<lparr>rw_header = [''Location'' \<mapsto> ''/'' @ ''https://example.com/self.ts''],
              rw_status = Some 302, rw_body = []\<rparr>,
           Map.empty,
           [HttpGet ''https://example.com/self.ts?'', HttpGet ''https://example.com/self.ts''])"
    by (simp add: ts qs)
  moreover from target_url_query [OF pm, of example_env ?c] fm km hit
  have "handler example_env ?m ?c =
      Some (respond (serveBundle example_env ?c new_writer ?m ''1c000000000000000000''), ?c,
            [HttpGet ''https://example.com/mod2.ts?''])"
    by blast
  ultimately show ?thesis by (simp add: example_serve respond_def)
qed

subsection \<open>Serving a cache entry\<close>

text \<open>
  Claim C4. When the entry of a key can be read, \<^verbatim>\<open>serveBundle\<close> computes the ETag as
  the first 16 bytes of the SHA-256 digest of the entry's bytes, in hexadecimal between
  double quotes: 34 characters, so it is never a cache key. When the request's
  \<^verbatim>\<open>If-None-Match\<close> equals the ETag the answer is 304 with no body; otherwise it is 200
  with the entry's bytes as the body and the headers \<^verbatim>\<open>Content-Type\<close>, \<^verbatim>\<open>ETag\<close>,
  \<^verbatim>\<open>Cache-Control\<close> (public, one year in seconds), \<^verbatim>\<open>Content-Length\<close> and
  \<^verbatim>\<open>Access-Control-Allow-Origin\<close>. The body depends on the entry alone, so serving the
  same entry twice gives the same bytes.
\<close>

theorem serveBundle_readable:
  assumes "os_read_cache e c (''.cache/'' @ hash) = Inr b"
  shows "serveBundle e c new_writer r hash =
          (if header_get r ''If-None-Match'' = etag_of (sha256 e) b
           then (NotModified,
                 \<lparr>rw_header = [''Access-Control-Allow-Origin'' \<mapsto> ''*''],
                  rw_status = Some 304, rw_body = []\<rparr>)
           else (Served,
                 \<lparr>rw_header = [''Access-Control-Allow-Origin'' \<mapsto> ''*'',
                               ''Content-Type'' \<mapsto> ''application/javascript'',
                               ''ETag'' \<mapsto> etag_of (sha256 e) b,
                               ''Cache-Control'' \<mapsto> ''public, max-age='' @ sprintf_d (365 * 24 * 60 * 60),
                               ''Content-Length'' \<mapsto> sprintf_d (length b)],
                  rw_status = Some 200, rw_body = b\<rparr>))
       \<and> etag_of (sha256 e) b =
            [CHR 0x22] @ take 32 (sprintf_x (digest_bytes (sha256 e b))) @ [CHR 0x22]
       \<and> length (etag_of (sha256 e) b) = 34
       \<and> cache_key (sha256 e) url \<noteq> Some (etag_of (sha256 e) b)"
proof -
  have year: "sprintf_d (365 * 24 * 60 * 60) = ''31536000''"
    by (simp add: sprintf_d.simps dec_digit_def)
  have "serveBundle e c new_writer r hash =
          (if header_get r ''If-None-Match'' = etag_of (sha256 e) b
           then (NotModified,
                 \<lparr>rw_header = [''Access-Control-Allow-Origin'' \<mapsto> ''*''],
                  rw_status = Some 304, rw_body = []\<rparr>)
           else (Served,
                 \<lparr>rw_header = [''Access-Control-Allow-Origin'' \<mapsto> ''*'',
                               ''Content-Type'' \<mapsto> ''application/javascript'',
                               ''ETag'' \<mapsto> etag_of (sha256 e) b,
                               ''Cache-Control'' \<mapsto> ''public, max-age='' @ sprintf_d (365 * 24 * 60 * 60),
                               ''Content-Length'' \<mapsto> sprintf_d (length b)],
                  rw_status = Some 200, rw_body = b\<rparr>))"
    unfolding year using assms
    by (simp add: serveBundle_def Let_def new_writer_def header_set_def write_body_def
        write_header_def)
  moreover have "etag_of (sha256 e) b =
            [CHR 0x22] @ take 32 (sprintf_x (digest_bytes (sha256 e b))) @ [CHR 0x22]"
    by (simp add: etag_of_def sprintf_x_take)
  moreover have "length (etag_of (sha256 e) b) = 34" by (rule length_etag)
  moreover have "cache_key (sha256 e) url \<noteq> Some (etag_of (sha256 e) b)"
  proof
    assume "cache_key (sha256 e) url = Some (etag_of (sha256 e) b)"
    then have "length (take 20 (sprintf_x (digest_bytes (sha256 e url)))) = length (etag_of (sha256 e) b)"
      by (simp add: cache_key_Some)
    then show False by (simp add: length_etag length_sprintf_x length_digest_bytes)
  qed
  ultimately show ?thesis by blast
qed

theorem serveBundle_readable_witness:
  "serveBundle example_env [''.cache/1c000000000000000000'' \<mapsto> ''export default 1;''] new_writer
     (example_request ''/https://example.com/mod2.ts'') ''1c000000000000000000'' =
     (Served,
      \<lparr>rw_header = [''Access-Control-Allow-Origin'' \<mapsto> ''*'',
                    ''Content-Type'' \<mapsto> ''application/javascript'',
                    ''ETag'' \<mapsto> dquote ''11000000000000000000000000000000'',
                    ''Cache-Control'' \<mapsto> ''public, max-age=31536000'',
                    ''Content-Length'' \<mapsto> ''17''],
       rw_status = Some 200, rw_body = ''export default 1;''\<rparr>)
   \<and> serveBundle example_env [''.cache/1c000000000000000000'' \<mapsto> ''export default 1;''] new_writer
       ((example_request ''/https://example.com/mod2.ts'')
          \<lparr>req_header := [''If-None-Match'' \<mapsto> dquote ''11000000000000000000000000000000'']\<rparr>)
       ''1c000000000000000000'' =
     (NotModified,
      \<lparr>rw_header = [''Access-Control-Allow-Origin'' \<mapsto> ''*''],
       rw_status = Some 304, rw_body = []\<rparr>)"
proof -
  let ?c = "[''.cache/1c000000000000000000'' \<mapsto> ''export default 1;'']"
  have rd: "os_read_cache example_env ?c (''.cache/'' @ ''1c000000000000000000'') =
      Inr ''export default 1;''"
    by (simp add: os_read_cache_def example_env_def)
  have year: "sprintf_d (365 * 24 * 60 * 60) = ''31536000''"
    by (simp add: sprintf_d.simps dec_digit_def)
  have len: "sprintf_d (length ''export default 1;'') = ''17''"
    by (simp add: sprintf_d.simps dec_digit_def)
  have absent: "header_get (example_request ''/https://example.com/mod2.ts'') ''If-None-Match''
      \<noteq> dquote ''11000000000000000000000000000000''"
    by (simp add: header_get_def example_request_def dquote_def)
  have present: "header_get ((example_request ''/https://example.com/mod2.ts'')
          \<lparr>req_header := [''If-None-Match'' \<mapsto> dquote ''11000000000000000000000000000000'']\<rparr>)
        ''If-None-Match'' = dquote ''11000000000000000000000000000000''"
    by (simp add: header_get_def)
  note at_r1 = serveBundle_readable [OF rd, of "example_request ''/https://example.com/mod2.ts''",
      THEN conjunct1, unfolded example_sha256 example_etag year len]
  note at_r2 = serveBundle_readable [OF rd, of "(example_request ''/https://example.com/mod2.ts'')
          \<lparr>req_header := [''If-None-Match'' \<mapsto> dquote ''11000000000000000000000000000000'']\<rparr>",
      THEN conjunct1, unfolded example_sha256 example_etag year len]
  from at_r1 absent
  have served: "serveBundle example_env ?c new_writer
     (example_request ''/https://example.com/mod2.ts'') ''1c000000000000000000'' =
     (Served,
      \<lparr>rw_header = [''Access-Control-Allow-Origin'' \<mapsto> ''*'',
                    ''Content-Type'' \<mapsto> ''application/javascript'',
                    ''ETag'' \<mapsto> dquote ''11000000000000000000000000000000'',
                    ''Cache-Control'' \<mapsto> ''public, max-age='' @ ''31536000'',
                    ''Content-Length'' \<mapsto> ''17''],
       rw_status = Some 200, rw_body = ''export default 1;''\<rparr>)"
    by (simp only: if_False)
  from at_r2 present
  have unchanged: "serveBundle example_env ?c new_writer
       ((example_request ''/https://example.com/mod2.ts'')
          \<lparr>req_header := [''If-None-Match'' \<mapsto> dquote ''11000000000000000000000000000000'']\<rparr>)
       ''1c000000000000000000'' =
     (NotModified,
      \<lparr>rw_header = [''Access-Control-Allow-Origin'' \<mapsto> ''*''],
       rw_status = Some 304, rw_body = []\<rparr>)"
    by (simp only: simp_thms if_True)
  from served unchanged show ?thesis by simp
qed

subsection \<open>Failures\<close>

text \<open>
  Claim C6. Whenever the handler ends a request with a failure, the response has status
  200, the one header \<^verbatim>\<open>Content-Type: application/javascript\<close>, and a body made of two
  \<^verbatim>\<open>console.error\<close> statements: the first with the JSON encoding of the message, the
  second with the quoted text of the error, where message and error are those of the step
  that failed: of the fetcher, of a stage of the build, of the write to the cache or of
  the read from it. \<^verbatim>\<open>json.Marshal\<close> and the verb \<^verbatim>\<open>%q\<close> belong to the Go
  library; given that each of them yields a string literal (as both do: they escape the
  double quote, the backslash and the line terminators, and the escapes they write are
  \<^verbatim>\<open>\"\<close>, \<^verbatim>\<open>\\\<close>, a backslash before a letter, \<^verbatim>\<open>\x\<close> with two and
  \<^verbatim>\<open>\u\<close> with four hexadecimal digits), the body is a script.
\<close>

theorem failure_response:
  assumes "handler e r c = Some (Responded (Failed st) w, c', evs)"
  shows "sent_status w = 200
       \<and> rw_header w = [''Content-Type'' \<mapsto> ''application/javascript'']
       \<and> (\<exists>msg err.
             rw_body w =
               ''console.error('' @ json_marshal e msg @ '');'' @ ''console.error('' @ quote e err @ '')''
             \<and> (fetch e (target_url r) = Some (Fail st msg err, evs)
                \<or> (\<exists>resp evs0 evs1. fetch e (target_url r) = Some (Ok (target_url r, resp), evs0)
                      \<and> build_bundle e resp = (Fail st msg err, evs1))
                \<or> (\<exists>resp evs0 k b evs1 left. st = CacheWrite
                      \<and> fetch e (target_url r) = Some (Ok (target_url r, resp), evs0)
                      \<and> cache_key (sha256 e) (target_url r) = Some k
                      \<and> build_bundle e resp = (Ok b, evs1)
                      \<and> write_fault e (''.cache/'' @ k) b = Some (err, left)
                      \<and> msg = ''Failed to write to cache: '' @ err)
                \<or> (\<exists>k. st = CacheRead \<and> cache_key (sha256 e) (target_url r) = Some k
                      \<and> os_read_cache e c' (''.cache/'' @ k) = Inl err
                      \<and> msg = ''Failed to read from cache: '' @ err)))
       \<and> ((\<forall>s. js_string_literal (json_marshal e s)) \<longrightarrow> (\<forall>s. js_string_literal (quote e s)) \<longrightarrow>
            js_script (rw_body w))"
proof -
  from handler_cause [OF assms] obtain msg err
    where w0: "w = sendError e new_writer msg err"
      and cause: "fetch e (target_url r) = Some (Fail st msg err, evs)
      \<or> (\<exists>resp evs0 evs1. fetch e (target_url r) = Some (Ok (target_url r, resp), evs0)
            \<and> build_bundle e resp = (Fail st msg err, evs1))
      \<or> (\<exists>resp evs0 k b evs1 left. st = CacheWrite
            \<and> fetch e (target_url r) = Some (Ok (target_url r, resp), evs0)
            \<and> cache_key (sha256 e) (target_url r) = Some k
            \<and> build_bundle e resp = (Ok b, evs1)
            \<and> write_fault e (''.cache/'' @ k) b = Some (err, left)
            \<and> msg = ''Failed to write to cache: '' @ err)
      \<or> (\<exists>k. st = CacheRead \<and> cache_key (sha256 e) (target_url r) = Some k
            \<and> os_read_cache e c' (''.cache/'' @ k) = Inl err
            \<and> msg = ''Failed to read from cache: '' @ err)"
    by blast
  from w0 have w: "w = \<lparr>rw_header = [''Content-Type'' \<mapsto> ''application/javascript''],
      rw_status = Some 200,
      rw_body = ''console.error('' @ json_marshal e msg @ '');console.error('' @ quote e err @ '')''\<rparr>"
    by (simp only: sendError_new)
  have status: "sent_status w = 200" by (simp add: w sent_status_def)
  have header: "rw_header w = [''Content-Type'' \<mapsto> ''application/javascript'']"
    by (simp add: w)
  have body: "rw_body w =
      ''console.error('' @ json_marshal e msg @ '');'' @ ''console.error('' @ quote e err @ '')''"
    by (simp add: w)
  have script: "js_script (rw_body w)"
    if "\<forall>s. js_string_literal (json_marshal e s)" and "\<forall>s. js_string_literal (quote e s)"
  proof -
    from that have "js_string_literal (json_marshal e msg)" and "js_string_literal (quote e err)"
      by simp_all
    then show ?thesis unfolding body by (rule js_two_statements)
  qed
  from status header body cause script show ?thesis by blast
qed

theorem failure_response_witness:
  "(\<exists>w c evs. handler quoting_env (example_request ''/https://nowhere.example/mod.ts'') Map.empty =
        Some (Responded (Failed Fetching) w, c, evs)
      \<and> sent_status w = 200
      \<and> rw_body w =
          ''console.error(''
            @ js_quote (''Failed to fetch URL: lookup '' @ dquote ''nowhere'' @ '': no such host'')
            @ '');console.error('' @ js_quote (''lookup '' @ dquote ''nowhere'' @ '': no such host'')
            @ '')''
      \<and> js_script (rw_body w))
   \<and> (\<exists>w c evs. handler failing_build_env (example_request ''/https://example.com/mod2.ts'')
         [''.cache/1b000000000000000000'' \<mapsto> ''old''] = Some (Responded (Failed Bundling) w, c, evs)
         \<and> sent_status w = 200
         \<and> rw_body w = ''console.error('' @ dquote ''Build failed'' @ '');console.error(''
              @ dquote ''build failed: Unexpected token errors'' @ '')'')"
proof -
  let ?r = "example_request ''/https://nowhere.example/mod.ts''"
  let ?err = "''lookup '' @ dquote ''nowhere'' @ '': no such host''"
  let ?w = "\<lparr>rw_header = [''Content-Type'' \<mapsto> ''application/javascript''],
      rw_status = Some 200,
      rw_body = ''console.error('' @ js_quote (''Failed to fetch URL: '' @ ?err)
                  @ '');console.error('' @ js_quote ?err @ '')''\<rparr>"
  have enc: "json_marshal quoting_env = js_quote" "quote quoting_env = js_quote"
    by (simp_all add: quoting_env_def)
  have get: "http_get quoting_env (target_url ?r) = Inl ?err"
    by (simp add: quoting_env_def)
  have f: "fetch quoting_env (target_url ?r) =
      Some (Fail Fetching (''Failed to fetch URL: '' @ ?err) ?err, [HttpGet (target_url ?r)])"
    by (simp add: fetch_def get)
  have h: "handler quoting_env ?r Map.empty =
      Some (Responded (Failed Fetching) ?w, Map.empty, [HttpGet (target_url ?r)])"
    by (simp add: handler_def example_path f sendError_new enc)
  have lit: "\<forall>s. js_string_literal (json_marshal quoting_env s)"
    "\<forall>s. js_string_literal (quote quoting_env s)"
    by (simp_all add: enc js_quote_literal)
  from failure_response [OF h] lit have "sent_status ?w = 200" and "js_script (rw_body ?w)"
    by blast+
  with h have first: "\<exists>w c evs. handler quoting_env ?r Map.empty =
        Some (Responded (Failed Fetching) w, c, evs)
      \<and> sent_status w = 200
      \<and> rw_body w =
          ''console.error('' @ js_quote (''Failed to fetch URL: lookup '' @ dquote ''nowhere'' @ '': no such host'')
            @ '');console.error('' @ js_quote ?err @ '')''
      \<and> js_script (rw_body w)"
    by simp
  from failure_response [OF example_build_failure]
  have "sent_status
     \<lparr>rw_header = [''Content-Type'' \<mapsto> ''application/javascript''],
      rw_status = Some 200,
      rw_body = ''console.error('' @ dquote ''Build failed'' @ '');console.error(''
         @ dquote ''build failed: Unexpected token errors'' @ '')''\<rparr> = 200"
    by blast
  with example_build_failure
  have second: "\<exists>w c evs. handler failing_build_env (example_request ''/https://example.com/mod2.ts'')
         [''.cache/1b000000000000000000'' \<mapsto> ''old''] = Some (Responded (Failed Bundling) w, c, evs)
         \<and> sent_status w = 200
         \<and> rw_body w = ''console.error('' @ dquote ''Build failed'' @ '');console.error(''
              @ dquote ''build failed: Unexpected token errors'' @ '')''"
    by simp
  from first second show ?thesis by blast
qed

text \<open>
  Claim C5. A request that fails while fetching, on the upstream status, while setting
  up the workspace, in discovery, in installation or in bundling leaves the cache exactly
  as it was. The cache changes only in a request whose bundling engine reported no error
  and whose output file was read.
\<close>

theorem failure_leaves_cache:
  assumes "handler e r c = Some (out, c', evs)"
  shows "(\<forall>st w. out = Responded (Failed st) w \<longrightarrow>
            st \<in> {Fetching, UpstreamStatus, WorkspaceSetup, DependencyDiscovery,
                  DependencyInstall, Bundling} \<longrightarrow> c' = c)
       \<and> (c' \<noteq> c \<longrightarrow>
            (\<exists>tmpDir b.
               Build [tmpDir @ ''/src'', ''index.ts''] [tmpDir, ''dist'', ''bundle.js''] \<in> set evs
               \<and> build e [tmpDir @ ''/src'', ''index.ts''] [tmpDir, ''dist'', ''bundle.js''] = []
               \<and> read_file e (tmpDir @ ''/dist/bundle.js'') = Inr b))"
proof -
  from handler_shape [OF assms]
  consider (same) "c' = c"
    | (built) resp evs0 evs1 b k w where "evs = evs0 @ evs1"
        "build_bundle e resp = (Ok b, evs1)" "out = Responded k w"
        "k = Failed CacheWrite \<or> k = Failed CacheRead \<or> k = NotModified \<or> k = Served"
    by blast
  then show ?thesis
  proof cases
    case same
    then show ?thesis by simp
  next
    case built
    from build_bundle_cases [OF built(2)] obtain tmpDir missing
      where "evs1 = [Exec ''bunx'' depcheck_args tmpDir, Exec ''bun'' (install_args missing) tmpDir,
                    Build [tmpDir @ ''/src'', ''index.ts''] [tmpDir, ''dist'', ''bundle.js'']]"
        and "build e [tmpDir @ ''/src'', ''index.ts''] [tmpDir, ''dist'', ''bundle.js''] = []"
        and "read_file e (tmpDir @ ''/dist/bundle.js'') = Inr b"
      by auto
    with built(1) have "\<exists>tmpDir b.
               Build [tmpDir @ ''/src'', ''index.ts''] [tmpDir, ''dist'', ''bundle.js''] \<in> set evs
               \<and> build e [tmpDir @ ''/src'', ''index.ts''] [tmpDir, ''dist'', ''bundle.js''] = []
               \<and> read_file e (tmpDir @ ''/dist/bundle.js'') = Inr b"
      by auto
    moreover from built(3,4) have "\<forall>st w. out = Responded (Failed st) w \<longrightarrow>
            st \<in> {Fetching, UpstreamStatus, WorkspaceSetup, DependencyDiscovery,
                  DependencyInstall, Bundling} \<longrightarrow> c' = c"
      by auto
    ultimately show ?thesis by blast
  qed
qed

theorem failure_leaves_cache_witness:
  "(\<exists>w evs. handler failing_build_env (example_request ''/https://example.com/mod2.ts'')
       [''.cache/1b000000000000000000'' \<mapsto> ''old''] =
       Some (Responded (Failed Bundling) w, [''.cache/1b000000000000000000'' \<mapsto> ''old''], evs))
   \<and> (\<exists>out c evs. handler example_env (example_request ''/https://example.com/mod2.ts'') Map.empty =
         Some (out, c, evs) \<and> c \<noteq> Map.empty)
   \<and> (\<exists>tmpDir b.
         build example_env [tmpDir @ ''/src'', ''index.ts''] [tmpDir, ''dist'', ''bundle.js''] = []
         \<and> read_file example_env (tmpDir @ ''/dist/bundle.js'') = Inr b)"
proof -
  from failure_leaves_cache [OF example_build_failure] example_build_failure
  have failed: "\<exists>w evs. handler failing_build_env (example_request ''/https://example.com/mod2.ts'')
       [''.cache/1b000000000000000000'' \<mapsto> ''old''] =
       Some (Responded (Failed Bundling) w, [''.cache/1b000000000000000000'' \<mapsto> ''old''], evs)"
    by simp
  have changed: "[''.cache/1c000000000000000000'' \<mapsto> ''export default 1;''] \<noteq> Map.empty"
    by simp
  with example_build_success
  have built: "\<exists>out c evs. handler example_env (example_request ''/https://example.com/mod2.ts'')
      Map.empty = Some (out, c, evs) \<and> c \<noteq> Map.empty"
    by simp
  from failure_leaves_cache [OF example_build_success] changed
  have "\<exists>tmpDir b.
         build example_env [tmpDir @ ''/src'', ''index.ts''] [tmpDir, ''dist'', ''bundle.js''] = []
         \<and> read_file example_env (tmpDir @ ''/dist/bundle.js'') = Inr b"
    by blast
  with failed built show ?thesis by blast
qed

subsection \<open>Discovery and installation\<close>



text \<open>
  Claim C8. A build whose discovery returned the missing packages runs the installer
  exactly once, right after the discovery tool: one run of \<^verbatim>\<open>bun\<close> in the workspace,
  with the argument \<^verbatim>\<open>install\<close> alone when nothing is missing and with
  \<^verbatim>\<open>install --save\<close> followed by every key of the missing set otherwise. An exit
  error of the installer ends the request with the captured output in the response, after
  that one run and with nothing run after it. No request runs the installer twice.
\<close>

theorem install_once:
  assumes "url_path r \<noteq> ''/''"
    and "fetch e (target_url r) = Some (Ok (target_url r, resp), evs)"
    and "cache_key (sha256 e) (target_url r) = Some k"
    and "\<not> os_stat_ok e c (''.cache/'' @ k)"
    and "body_err resp = None"
    and "workspace e (body_data resp) = (Ok tmpDir, evs0)"
    and "discovery e tmpDir = (Ok missing, evs1)"
  shows "(\<exists>out c' rest.
            handler e r c =
              Some (out, c',
                    evs @ Exec ''bunx'' depcheck_args tmpDir
                        # Exec ''bun'' (install_args missing) tmpDir # rest)
            \<and> (rest = [] \<or> rest = [Build [tmpDir @ ''/src'', ''index.ts''] [tmpDir, ''dist'', ''bundle.js'']])
            \<and> filter is_install
                 (evs @ Exec ''bunx'' depcheck_args tmpDir
                      # Exec ''bun'' (install_args missing) tmpDir # rest) =
               [Exec ''bun'' (install_args missing) tmpDir])
       \<and> install_args missing =
           ''install'' # (if missing = [] then [] else ''--save'' # map fst missing)
       \<and> (\<forall>code msg out.
             run_merged e ''bun'' (install_args missing) tmpDir = (Some (ExitError code msg), out) \<longrightarrow>
             handler e r c =
               Some (Responded (Failed DependencyInstall)
                       \<lparr>rw_header = [''Content-Type'' \<mapsto> ''application/javascript''],
                        rw_status = Some 200,
                        rw_body = ''console.error('' @ json_marshal e (''bun install failed: '' @ out)
                           @ '');console.error('' @ quote e msg @ '')''\<rparr>,
                     c,
                     evs @ [Exec ''bunx'' depcheck_args tmpDir,
                            Exec ''bun'' (install_args missing) tmpDir]))
       \<and> (\<forall>r' c0 out c' evs'. handler e r' c0 = Some (out, c', evs') \<longrightarrow>
             length (filter is_install evs') \<le> 1)"
proof -
  from build_after_discovery [OF assms(5-7)] obtain res rest
    where bb: "build_bundle e resp =
       (res, Exec ''bunx'' depcheck_args tmpDir # Exec ''bun'' (install_args missing) tmpDir # rest)"
      and rest: "rest = [] \<or> rest = [Build [tmpDir @ ''/src'', ''index.ts''] [tmpDir, ''dist'', ''bundle.js'']]"
      and failing: "\<And>code msg out.
           run_merged e ''bun'' (install_args missing) tmpDir = (Some (ExitError code msg), out) \<Longrightarrow>
           res = Fail DependencyInstall (''bun install failed: '' @ out) msg \<and> rest = []"
    by blast
  from fetch_gets [OF assms(2)] have gets: "filter is_install evs = []"
    by (rule gets_no_install)
  from serve_or_build_miss [OF assms(3,4), of r resp evs] bb obtain out c'
    where "serve_or_build e r c (target_url r) resp evs =
      (out, c', evs @ Exec ''bunx'' depcheck_args tmpDir
                    # Exec ''bun'' (install_args missing) tmpDir # rest)"
    by auto
  with assms(1,2) have h: "handler e r c =
      Some (out, c', evs @ Exec ''bunx'' depcheck_args tmpDir
                    # Exec ''bun'' (install_args missing) tmpDir # rest)"
    by (simp add: handler_def Let_def)
  from rest gets have count: "filter is_install
                 (evs @ Exec ''bunx'' depcheck_args tmpDir
                      # Exec ''bun'' (install_args missing) tmpDir # rest) =
               [Exec ''bun'' (install_args missing) tmpDir]"
    by (auto simp: is_install_def)
  have args: "install_args missing =
           ''install'' # (if missing = [] then [] else ''--save'' # map fst missing)"
    by (simp add: install_args_def)
  have failed: "handler e r c =
               Some (Responded (Failed DependencyInstall)
                       \<lparr>rw_header = [''Content-Type'' \<mapsto> ''application/javascript''],
                        rw_status = Some 200,
                        rw_body = ''console.error('' @ json_marshal e (''bun install failed: '' @ out)
                           @ '');console.error('' @ quote e msg @ '')''\<rparr>,
                     c,
                     evs @ [Exec ''bunx'' depcheck_args tmpDir,
                            Exec ''bun'' (install_args missing) tmpDir])"
    if "run_merged e ''bun'' (install_args missing) tmpDir = (Some (ExitError code msg), out)"
    for code msg out
  proof -
    from failing [OF that] bb have "build_bundle e resp =
        (Fail DependencyInstall (''bun install failed: '' @ out) msg,
         [Exec ''bunx'' depcheck_args tmpDir, Exec ''bun'' (install_args missing) tmpDir])"
      by simp
    from handler_build_failure [OF assms(1-4) this] show ?thesis
      by (simp only: sendError_new)
  qed
  have atmost: "length (filter is_install evs') \<le> 1"
    if h': "handler e r' c0 = Some (out, c', evs')" for r' c0 out c' evs'
  proof -
    from handler_shape [OF h']
    consider "list_all is_get evs'"
      | resp' ea eb res' where "list_all is_get ea" "evs' = ea @ eb"
          "build_bundle e resp' = (res', eb)"
      by blast
    then show ?thesis
    proof cases
      case 1
      then show ?thesis by (simp add: gets_no_install)
    next
      case 2
      from build_bundle_cases [OF 2(3)] 2(1,2) show ?thesis
        by (auto simp: gets_no_install is_install_def)
    qed
  qed
  from h rest count args failed atmost show ?thesis by blast
qed

theorem install_once_witness:
  "(\<exists>out c'. handler example_env (example_request ''/https://example.com/mod2.ts'') Map.empty =
       Some (out, c',
             [HttpGet ''https://example.com/mod2.ts?'',
              Exec ''bunx'' depcheck_args ''/tmp/vite-build-1'',
              Exec ''bun'' [''install'', ''--save'', ''left-pad''] ''/tmp/vite-build-1'',
              Build [''/tmp/vite-build-1/src'', ''index.ts'']
                [''/tmp/vite-build-1'', ''dist'', ''bundle.js'']]))
   \<and> filter is_install
         [HttpGet ''https://example.com/mod2.ts?'',
          Exec ''bunx'' depcheck_args ''/tmp/vite-build-1'',
          Exec ''bun'' [''install'', ''--save'', ''left-pad''] ''/tmp/vite-build-1'',
          Build [''/tmp/vite-build-1/src'', ''index.ts'']
            [''/tmp/vite-build-1'', ''dist'', ''bundle.js'']] =
       [Exec ''bun'' [''install'', ''--save'', ''left-pad''] ''/tmp/vite-build-1'']
   \<and> handler failing_install_env (example_request ''/https://example.com/mod2.ts'') Map.empty =
       Some (Responded (Failed DependencyInstall)
               \<lparr>rw_header = [''Content-Type'' \<mapsto> ''application/javascript''],
                rw_status = Some 200,
                rw_body = ''console.error('' @ dquote ''bun install failed: error: no such package''
                   @ '');console.error('' @ dquote ''exit status 1'' @ '')''\<rparr>,
             Map.empty,
             [HttpGet ''https://example.com/mod2.ts?'',
              Exec ''bunx'' depcheck_args ''/tmp/vite-build-1'',
              Exec ''bun'' [''install'', ''--save'', ''left-pad''] ''/tmp/vite-build-1''])
   \<and> (\<exists>out c' rest.
         handler nothing_missing_env (example_request ''/https://example.com/mod2.ts'') Map.empty =
           Some (out, c',
                 HttpGet ''https://example.com/mod2.ts?''
                   # Exec ''bunx'' depcheck_args ''/tmp/vite-build-1''
                   # Exec ''bun'' [''install''] ''/tmp/vite-build-1'' # rest))"
proof -
  let ?r = "example_request ''/https://example.com/mod2.ts''"
  let ?resp = "found_ok ''export default 1;''"
  let ?missing = "[(''left-pad'', [''src/index.ts''])]"
  have p: "url_path ?r \<noteq> ''/''" by (simp add: example_path)
  have body: "body_err ?resp = None" and data: "body_data ?resp = ''export default 1;''"
    by (simp_all add: found_ok_def)
  have miss: "\<not> os_stat_ok e Map.empty (''.cache/'' @ ''1c000000000000000000'')" for e
    by (rule example_miss)

  have ws1: "workspace example_env (body_data ?resp) = (Ok ''/tmp/vite-build-1'', [])"
    by (rule example_workspace)
  have fields1: "http_get example_env = example_web" "sha256 example_env = example_sha"
    by (simp_all add: example_env_def)
  note at1 = install_once [OF p example_reach(1) [OF fields1] example_reach(2) [OF fields1] miss
      body ws1 example_discovery]
  from at1 have args1: "install_args ?missing = [''install'', ''--save'', ''left-pad'']"
    by simp
  from at1 obtain out c' rest
    where h1: "handler example_env ?r Map.empty =
        Some (out, c', [HttpGet ''https://example.com/mod2.ts?''] @
          Exec ''bunx'' depcheck_args ''/tmp/vite-build-1''
            # Exec ''bun'' (install_args ?missing) ''/tmp/vite-build-1'' # rest)"
      and count1: "filter is_install ([HttpGet ''https://example.com/mod2.ts?''] @
          Exec ''bunx'' depcheck_args ''/tmp/vite-build-1''
            # Exec ''bun'' (install_args ?missing) ''/tmp/vite-build-1'' # rest) =
        [Exec ''bun'' (install_args ?missing) ''/tmp/vite-build-1'']"
    by blast
  from h1 example_build_success
  have rest: "rest = [Build [''/tmp/vite-build-1/src'', ''index.ts'']
                [''/tmp/vite-build-1'', ''dist'', ''bundle.js'']]"
    by simp
  from h1 rest args1 have first: "\<exists>out c'. handler example_env ?r Map.empty =
       Some (out, c',
             [HttpGet ''https://example.com/mod2.ts?'',
              Exec ''bunx'' depcheck_args ''/tmp/vite-build-1'',
              Exec ''bun'' [''install'', ''--save'', ''left-pad''] ''/tmp/vite-build-1'',
              Build [''/tmp/vite-build-1/src'', ''index.ts'']
                [''/tmp/vite-build-1'', ''dist'', ''bundle.js'']])"
    by simp
  from count1 rest args1 have second: "filter is_install
         [HttpGet ''https://example.com/mod2.ts?'',
          Exec ''bunx'' depcheck_args ''/tmp/vite-build-1'',
          Exec ''bun'' [''install'', ''--save'', ''left-pad''] ''/tmp/vite-build-1'',
          Build [''/tmp/vite-build-1/src'', ''index.ts'']
            [''/tmp/vite-build-1'', ''dist'', ''bundle.js'']] =
       [Exec ''bun'' [''install'', ''--save'', ''left-pad''] ''/tmp/vite-build-1'']"
    by simp

  have fields2: "http_get failing_install_env = example_web"
    "sha256 failing_install_env = example_sha"
    by (simp_all add: failing_install_env_def example_env_def)
  have ws2: "workspace failing_install_env (body_data ?resp) = (Ok ''/tmp/vite-build-1'', [])"
    by (simp add: data workspace_def failing_install_env_def example_env_def example_files_def
        and_then_def)
  have dc2: "discovery failing_install_env ''/tmp/vite-build-1'' =
      (Ok ?missing, [Exec ''bunx'' depcheck_args ''/tmp/vite-build-1''])"
    by (simp add: discovery_def parse_depcheck_def failing_install_env_def example_env_def)
  have run2: "run_merged failing_install_env ''bun'' (install_args ?missing) ''/tmp/vite-build-1'' =
      (Some (ExitError 1 ''exit status 1''), ''error: no such package'')"
    by (simp add: failing_install_env_def)
  have enc2: "json_marshal failing_install_env = dquote" "quote failing_install_env = dquote"
    by (simp_all add: failing_install_env_def example_env_def)
  from install_once [OF p example_reach(1) [OF fields2] example_reach(2) [OF fields2] miss body
      ws2 dc2] run2
  have "handler failing_install_env ?r Map.empty =
       Some (Responded (Failed DependencyInstall)
               \<lparr>rw_header = [''Content-Type'' \<mapsto> ''application/javascript''],
                rw_status = Some 200,
                rw_body = ''console.error(''
                   @ json_marshal failing_install_env (''bun install failed: '' @ ''error: no such package'')
                   @ '');console.error('' @ quote failing_install_env ''exit status 1'' @ '')''\<rparr>,
             Map.empty,
             [HttpGet ''https://example.com/mod2.ts?''] @
             [Exec ''bunx'' depcheck_args ''/tmp/vite-build-1'',
              Exec ''bun'' (install_args ?missing) ''/tmp/vite-build-1''])"
    by blast
  with args1 have third: "handler failing_install_env ?r Map.empty =
       Some (Responded (Failed DependencyInstall)
               \<lparr>rw_header = [''Content-Type'' \<mapsto> ''application/javascript''],
                rw_status = Some 200,
                rw_body = ''console.error('' @ dquote ''bun install failed: error: no such package''
                   @ '');console.error('' @ dquote ''exit status 1'' @ '')''\<rparr>,
             Map.empty,
             [HttpGet ''https://example.com/mod2.ts?'',
              Exec ''bunx'' depcheck_args ''/tmp/vite-build-1'',
              Exec ''bun'' [''install'', ''--save'', ''left-pad''] ''/tmp/vite-build-1''])"
    by (simp add: enc2)

  have fields3: "http_get nothing_missing_env = example_web"
    "sha256 nothing_missing_env = example_sha"
    by (simp_all add: nothing_missing_env_def example_env_def)
  have ws3: "workspace nothing_missing_env (body_data ?resp) = (Ok ''/tmp/vite-build-1'', [])"
    by (simp add: data workspace_def nothing_missing_env_def example_env_def example_files_def
        and_then_def)
  have dc3: "discovery nothing_missing_env ''/tmp/vite-build-1'' =
      (Ok [], [Exec ''bunx'' depcheck_args ''/tmp/vite-build-1''])"
    by (simp add: discovery_def parse_depcheck_def nothing_missing_env_def example_env_def)
  note at3 = install_once [OF p example_reach(1) [OF fields3] example_reach(2) [OF fields3] miss
      body ws3 dc3]
  from at3 have args3: "install_args ([] :: (string \<times> string list) list) = [''install'']" by simp
  from at3 obtain out3 c3 rest3
    where "handler nothing_missing_env ?r Map.empty =
        Some (out3, c3, [HttpGet ''https://example.com/mod2.ts?''] @
          Exec ''bunx'' depcheck_args ''/tmp/vite-build-1''
            # Exec ''bun'' (install_args []) ''/tmp/vite-build-1'' # rest3)"
    by blast
  with args3 have fourth: "\<exists>out c' rest.
         handler nothing_missing_env ?r Map.empty =
           Some (out, c',
                 HttpGet ''https://example.com/mod2.ts?''
                   # Exec ''bunx'' depcheck_args ''/tmp/vite-build-1''
                   # Exec ''bun'' [''install''] ''/tmp/vite-build-1'' # rest)"
    by simp
  from first second third fourth show ?thesis by blast
qed


end
